theory Spec2Isabelle
  imports Complex_Main
begin

section \<open>Python strings\<close>

text \<open>
  The decoder of \<^verbatim>\<open>log_parser.py\<close> is one function, \<^verbatim>\<open>parse_log_file\<close>, with its
  helpers nested inside. The model follows it from the lines of the opened file to the
  dictionary \<^verbatim>\<open>log_data\<close> at the end of the scan; the file dialog, the printing and the
  data frame libraries stay outside.

  A Python \<^verbatim>\<open>str\<close> is modelled as a HOL \<open>string\<close>; the model speaks about ASCII text: the
  white space of \<^verbatim>\<open>str.strip\<close>, the digits of \<^verbatim>\<open>\d\<close> and the letters of
  \<^verbatim>\<open>str.lower\<close>/\<^verbatim>\<open>str.upper\<close> are the ASCII ones. Every exception the code can raise is a
  value of the model, and the clock that \<^verbatim>\<open>datetime.now()\<close> reads is an argument of it.
\<close>

definition is_space :: "char \<Rightarrow> bool" where
  "is_space c = (c \<in> set [CHR 0x09, CHR 0x0A, CHR 0x0B, CHR 0x0C, CHR 0x0D,
                           CHR 0x1C, CHR 0x1D, CHR 0x1E, CHR 0x1F, CHR 0x20])"

definition lstrip :: "string \<Rightarrow> string" where
  "lstrip s = dropWhile is_space s"

definition rstrip :: "string \<Rightarrow> string" where
  "rstrip s = rev (dropWhile is_space (rev s))"

definition strip :: "string \<Rightarrow> string" where
  "strip s = rstrip (lstrip s)"

fun startswith :: "string \<Rightarrow> string \<Rightarrow> bool" where
  "startswith s [] = True"
| "startswith [] (p # ps) = False"
| "startswith (c # cs) (p # ps) = (c = p \<and> startswith cs ps)"

definition endswith :: "string \<Rightarrow> string \<Rightarrow> bool" where
  "endswith s suf = startswith (rev s) (rev suf)"

text \<open>\<^verbatim>\<open>sub in s\<close>\<close>

fun contains :: "string \<Rightarrow> string \<Rightarrow> bool" where
  "contains [] sub = (sub = [])"
| "contains (c # cs) sub = (startswith (c # cs) sub \<or> contains cs sub)"

text \<open>\<^verbatim>\<open>s.split(d)\<close> for a one-character separator: never the empty list.\<close>

fun split_on :: "char \<Rightarrow> string \<Rightarrow> string list" where
  "split_on d [] = [[]]"
| "split_on d (c # cs) =
     (if c = d then [] # split_on d cs
      else (case split_on d cs of [] \<Rightarrow> [[c]] | p # ps \<Rightarrow> (c # p) # ps))"

text \<open>\<^verbatim>\<open>s.split(d, n)\<close>: at most \<open>n\<close> splits, the rest of the text in the last part.\<close>

fun split_max :: "char \<Rightarrow> nat \<Rightarrow> string \<Rightarrow> string list" where
  "split_max d 0 s = [s]"
| "split_max d (Suc n) [] = [[]]"
| "split_max d (Suc n) (c # cs) =
     (if c = d then [] # split_max d n cs
      else (case split_max d (Suc n) cs of [] \<Rightarrow> [[c]] | p # ps \<Rightarrow> (c # p) # ps))"

text \<open>\<^verbatim>\<open>s.split()\<close>: the maximal runs of characters that are not white space.\<close>

fun split_ws_aux :: "string \<Rightarrow> string \<Rightarrow> string list" where
  "split_ws_aux cur [] = (if cur = [] then [] else [cur])"
| "split_ws_aux cur (c # cs) =
     (if is_space c then (if cur = [] then split_ws_aux [] cs else cur # split_ws_aux [] cs)
      else split_ws_aux (cur @ [c]) cs)"

definition split_ws :: "string \<Rightarrow> string list" where
  "split_ws s = split_ws_aux [] s"

text \<open>\<^verbatim>\<open>sep.join(parts)\<close>\<close>

fun join :: "string \<Rightarrow> string list \<Rightarrow> string" where
  "join sep [] = []"
| "join sep [x] = x"
| "join sep (x # y # ys) = x @ sep @ join sep (y # ys)"

text \<open>
  \<^verbatim>\<open>s.find(sub)\<close> as the text before and the text after the first occurrence of \<open>sub\<close>,
  \<open>None\<close> when there is none (Python's \<open>-1\<close>).
\<close>

fun find_split :: "string \<Rightarrow> string \<Rightarrow> string \<Rightarrow> (string \<times> string) option" where
  "find_split pre [] sub = (if sub = [] then Some (pre, []) else None)"
| "find_split pre (c # cs) sub =
     (if startswith (c # cs) sub then Some (pre, drop (length sub) (c # cs))
      else find_split (pre @ [c]) cs sub)"

definition lower_char :: "char \<Rightarrow> char" where
  "lower_char c =
     (case map_of (zip ''ABCDEFGHIJKLMNOPQRSTUVWXYZ'' ''abcdefghijklmnopqrstuvwxyz'') c of
        Some l \<Rightarrow> l | None \<Rightarrow> c)"

definition upper_char :: "char \<Rightarrow> char" where
  "upper_char c =
     (case map_of (zip ''abcdefghijklmnopqrstuvwxyz'' ''ABCDEFGHIJKLMNOPQRSTUVWXYZ'') c of
        Some u \<Rightarrow> u | None \<Rightarrow> c)"

definition lower :: "string \<Rightarrow> string" where
  "lower s = map lower_char s"

definition upper :: "string \<Rightarrow> string" where
  "upper s = map upper_char s"

section \<open>Numbers read from text\<close>

definition digit_val :: "char \<Rightarrow> nat option" where
  "digit_val c = map_of (zip ''0123456789'' [0, 1, 2, 3, 4, 5, 6, 7, 8, 9]) c"

definition is_digit :: "char \<Rightarrow> bool" where
  "is_digit c = (digit_val c \<noteq> None)"

definition nat_of_digits :: "string \<Rightarrow> nat" where
  "nat_of_digits ds = foldl (\<lambda>a c. 10 * a + (case digit_val c of Some d \<Rightarrow> d | None \<Rightarrow> 0)) 0 ds"

text \<open>
  Underscores in a numeric literal: each one stands between two digits. The first
  argument is the character before the text (\<open>CHR 0x00\<close> at the start).
\<close>

fun underscores_ok :: "char \<Rightarrow> string \<Rightarrow> bool" where
  "underscores_ok prev [] = (prev \<noteq> CHR ''_'')"
| "underscores_ok prev (c # cs) =
     ((if c = CHR ''_'' then is_digit prev else (prev \<noteq> CHR ''_'' \<or> is_digit c))
      \<and> underscores_ok c cs)"

definition split_sign :: "string \<Rightarrow> bool \<times> string" where
  "split_sign s =
     (case s of
        [] \<Rightarrow> (False, [])
      | c # cs \<Rightarrow> if c = CHR ''-'' then (True, cs) else if c = CHR ''+'' then (False, cs)
                  else (False, s))"

text \<open>
  The white space that \<^verbatim>\<open>int\<close> and \<^verbatim>\<open>float\<close> skip around a number: the six characters
  of C, without the four separators \<open>0x1C\<close> to \<open>0x1F\<close> that \<^verbatim>\<open>str.strip\<close> removes too.
\<close>

definition is_cspace :: "char \<Rightarrow> bool" where
  "is_cspace c = (c \<in> set [CHR 0x09, CHR 0x0A, CHR 0x0B, CHR 0x0C, CHR 0x0D, CHR 0x20])"

definition cstrip :: "string \<Rightarrow> string" where
  "cstrip s = rev (dropWhile is_cspace (rev (dropWhile is_cspace s)))"

text \<open>
  \<^verbatim>\<open>int(s)\<close> on a string, base ten: white space around, an optional sign, digits with
  single underscores between them. \<open>None\<close> is the \<^verbatim>\<open>ValueError\<close>. (The bound that
  recent versions of Python put on the number of digits is not modelled.)
\<close>

definition py_int :: "string \<Rightarrow> int option" where
  "py_int s =
     (let (neg, body) = split_sign (cstrip s);
          ds = filter (\<lambda>c. c \<noteq> CHR ''_'') body
      in if ds = [] \<or> \<not> list_all is_digit ds \<or> \<not> underscores_ok (CHR 0x00) body then None
         else Some (if neg then - int (nat_of_digits ds) else int (nat_of_digits ds)))"

text \<open>
  A Python \<^verbatim>\<open>float\<close>. A finite value is kept as the rational number the decimal text
  denotes; the rounding of that number to binary64 (and with it the overflow of a huge
  literal to infinity and the sign of zero) is not part of the model.
\<close>

datatype pyfloat = Finite rat | PosInf | NegInf | NaN

definition scale10 :: "int \<Rightarrow> int \<Rightarrow> rat" where
  "scale10 m e = (if 0 \<le> e then of_int (m * 10 ^ nat e) else of_int m / of_int (10 ^ nat (- e)))"

text \<open>The exponent part of a decimal literal: empty, or \<^verbatim>\<open>e\<close>, an optional sign and digits.\<close>

definition parse_exponent :: "string \<Rightarrow> int option" where
  "parse_exponent r =
     (case r of
        [] \<Rightarrow> Some 0
      | c # cs \<Rightarrow>
          if c = CHR ''e'' \<or> c = CHR ''E'' then
            (let (neg, ds) = split_sign cs
             in if ds = [] \<or> \<not> list_all is_digit ds then None
                else Some (if neg then - int (nat_of_digits ds) else int (nat_of_digits ds)))
          else None)"

definition parse_decimal :: "string \<Rightarrow> rat option" where
  "parse_decimal body =
     (let ip = takeWhile is_digit body;
          r1 = dropWhile is_digit body;
          has_dot = startswith r1 ''.'';
          fp = (if has_dot then takeWhile is_digit (tl r1) else []);
          r2 = (if has_dot then dropWhile is_digit (tl r1) else r1)
      in if ip = [] \<and> fp = [] then None
         else (case parse_exponent r2 of
                 None \<Rightarrow> None
               | Some e \<Rightarrow> Some (scale10 (int (nat_of_digits (ip @ fp))) (e - int (length fp)))))"

text \<open>\<^verbatim>\<open>float(s)\<close> on a string; \<open>None\<close> is the \<^verbatim>\<open>ValueError\<close>.\<close>

definition py_float :: "string \<Rightarrow> pyfloat option" where
  "py_float s =
     (let t = cstrip s in
      if \<not> underscores_ok (CHR 0x00) t then None
      else
        (let (neg, body) = split_sign (filter (\<lambda>c. c \<noteq> CHR ''_'') t) in
         if lower body = ''inf'' \<or> lower body = ''infinity'' then Some (if neg then NegInf else PosInf)
         else if lower body = ''nan'' then Some NaN
         else (case parse_decimal body of
                 None \<Rightarrow> None
               | Some q \<Rightarrow> Some (Finite (if neg then - q else q)))))"

section \<open>Values and records\<close>

text \<open>
  The values the decoder stores in a record. A \<^verbatim>\<open>datetime\<close> is the number of
  microseconds since 0001-01-01 00:00:00, the first instant Python can represent.
  A record is a Python \<^verbatim>\<open>dict\<close> with string keys, kept in insertion order.
\<close>

datatype pyval =
    VNone
  | VBool bool
  | VInt int
  | VFloat pyfloat
  | VStr string
  | VTime int
  | VList "pyval list"

type_synonym pydict = "(string \<times> pyval) list"

text \<open>\<^verbatim>\<open>record[k] = v\<close>\<close>

fun dict_set :: "pydict \<Rightarrow> string \<Rightarrow> pyval \<Rightarrow> pydict" where
  "dict_set [] k v = [(k, v)]"
| "dict_set ((k', v') # r) k v = (if k' = k then (k, v) # r else (k', v') # dict_set r k v)"

section \<open>The value coercion helpers\<close>

datatype target_type = TString | TFloat | TInt | TBoolNumeric | TAuto

text \<open>
  \<^verbatim>\<open>safe_clean_value(value, target_type, convert_bool_to_numeric)\<close>. The second component
  is what the call writes to the \<^verbatim>\<open>unknown_patterns\<close> logger. Every tag other than
  \<^verbatim>\<open>'string'\<close>, \<^verbatim>\<open>'float'\<close>, \<^verbatim>\<open>'int'\<close> and \<^verbatim>\<open>'bool_numeric'\<close> takes the last branch (\<open>TAuto\<close>).
\<close>

definition safe_clean_value_log :: "string option \<Rightarrow> target_type \<Rightarrow> bool \<Rightarrow> pyval \<times> string list" where
  "safe_clean_value_log value0 target_type convert_bool_to_numeric =
     (case value0 of
        None \<Rightarrow> (VNone, [])
      | Some raw \<Rightarrow>
          if raw = [] then (VNone, [])
          else
            (let v = strip raw in
             if v = [] \<or> v = ''None'' \<or> v = ''None,'' then (VNone, [])
             else
               (case target_type of
                  TString \<Rightarrow> (VStr v, [])
                | TFloat \<Rightarrow>
                    (case py_float v of
                       Some f \<Rightarrow> (VFloat f, [])
                     | None \<Rightarrow> (VNone, [''Failed to convert '' @ [CHR 0x27] @ v @ [CHR 0x27] @ '' to float'']))
                | TInt \<Rightarrow>
                    (case py_int v of
                       Some i \<Rightarrow> (VInt i, [])
                     | None \<Rightarrow> (VNone, [''Failed to convert '' @ [CHR 0x27] @ v @ [CHR 0x27] @ '' to int'']))
                | TBoolNumeric \<Rightarrow>
                    if lower v = ''true'' then (VInt 1, [])
                    else if lower v = ''false'' then (VInt 0, [])
                    else (VNone, [''Unexpected boolean value: '' @ [CHR 0x27] @ v @ [CHR 0x27]])
                | TAuto \<Rightarrow>
                    if v = ''True'' \<or> v = ''False'' then
                      (if convert_bool_to_numeric then (VInt (if v = ''True'' then 1 else 0), [])
                       else (VBool (v = ''True''), []))
                    else if contains v ''.'' then
                      (case py_float v of Some f \<Rightarrow> (VFloat f, []) | None \<Rightarrow> (VStr v, []))
                    else
                      (case py_int v of Some i \<Rightarrow> (VInt i, []) | None \<Rightarrow> (VStr v, [])))))"

definition safe_clean_value :: "string \<Rightarrow> target_type \<Rightarrow> pyval" where
  "safe_clean_value value target_type = fst (safe_clean_value_log (Some value) target_type False)"

definition convert_boolean_to_numeric :: "string \<Rightarrow> pyval" where
  "convert_boolean_to_numeric value0 =
     (if value0 = [] then VNone
      else (let v = strip value0 in
            if lower v = ''true'' then VInt 1
            else if lower v = ''false'' then VInt 0
            else VNone))"

text \<open>
  \<^verbatim>\<open>parse_list_values\<close>. \<open>parse_list_part\<close> is the body of its loop, \<open>parse_list_loop\<close> the
  loop, appending to \<^verbatim>\<open>values\<close>.
\<close>

definition parse_list_part :: "string \<Rightarrow> pyval" where
  "parse_list_part part =
     (case py_float part of
        Some f \<Rightarrow> VFloat f
      | None \<Rightarrow> (case py_int part of Some i \<Rightarrow> VInt i | None \<Rightarrow> VStr part))"

fun parse_list_loop :: "string list \<Rightarrow> pyval list \<Rightarrow> pyval list" where
  "parse_list_loop [] values = values"
| "parse_list_loop (part # parts) values = parse_list_loop parts (values @ [parse_list_part part])"

definition parse_list_values :: "string \<Rightarrow> pyval list" where
  "parse_list_values value_str =
     (if value_str = [] \<or> strip value_str = [] then []
      else
        (let cleaned0 = strip value_str;
             cleaned = (if startswith cleaned0 ''['' \<and> endswith cleaned0 '']''
                        then butlast (tl cleaned0) else cleaned0);
             parts = map strip (filter (\<lambda>p. strip p \<noteq> []) (split_on (CHR '','') cleaned))
         in parse_list_loop parts []))"

section \<open>Timestamps\<close>

text \<open>
  The exceptions of the model: what a \<^verbatim>\<open>raise\<close> of the Python code becomes.
\<close>

datatype pyexn = ValueError | IndexError | OverflowError

definition is_leap :: "nat \<Rightarrow> bool" where
  "is_leap y = (y mod 4 = 0 \<and> (y mod 100 \<noteq> 0 \<or> y mod 400 = 0))"

definition days_in_month :: "nat \<Rightarrow> nat \<Rightarrow> nat" where
  "days_in_month y m =
     (if m = 2 then (if is_leap y then 29 else 28)
      else if m = 4 \<or> m = 6 \<or> m = 9 \<or> m = 11 then 30 else 31)"

definition days_before_year :: "nat \<Rightarrow> nat" where
  "days_before_year y = (y - 1) * 365 + (y - 1) div 4 - (y - 1) div 100 + (y - 1) div 400"

definition days_before_month :: "nat \<Rightarrow> nat \<Rightarrow> nat" where
  "days_before_month y m = sum_list (map (days_in_month y) [1..<m])"

text \<open>
  \<^verbatim>\<open>datetime(y, m, d, H, M, S, us)\<close>: \<open>None\<close> is the \<^verbatim>\<open>ValueError\<close> of a field out of
  range (year 0, a day the month does not have, second 60).
\<close>

definition make_datetime :: "nat \<Rightarrow> nat \<Rightarrow> nat \<Rightarrow> nat \<Rightarrow> nat \<Rightarrow> nat \<Rightarrow> nat \<Rightarrow> int option" where
  "make_datetime y m d H M S us =
     (if 1 \<le> y \<and> y \<le> 9999 \<and> 1 \<le> m \<and> m \<le> 12 \<and> 1 \<le> d \<and> d \<le> days_in_month y m
         \<and> H \<le> 23 \<and> M \<le> 59 \<and> S \<le> 59 \<and> us \<le> 999999
      then Some ((((int (days_before_year y + days_before_month y m + (d - 1)) * 24 + int H) * 60
                    + int M) * 60 + int S) * 1000000 + int us)
      else None)"

text \<open>One past \<^verbatim>\<open>datetime.max\<close>, 9999-12-31 23:59:59.999999.\<close>

definition max_datetime :: int where
  "max_datetime = 3652059 * 86400 * 1000000"

text \<open>
  \<^verbatim>\<open>base_timestamp + offset\<close>: a \<^verbatim>\<open>timedelta\<close> is a number of microseconds; a sum outside
  the years 1 to 9999 raises \<^verbatim>\<open>OverflowError\<close>.
\<close>

definition add_timedelta :: "int \<Rightarrow> int \<Rightarrow> pyexn + int" where
  "add_timedelta t delta =
     (if 0 \<le> t + delta \<and> t + delta < max_datetime then Inr (t + delta) else Inl OverflowError)"

text \<open>A text against a pattern of fixed width: \<open>d\<close> in the pattern stands for one digit.\<close>

fun match_pat :: "string \<Rightarrow> string \<Rightarrow> bool" where
  "match_pat [] [] = True"
| "match_pat (p # ps) (c # cs) = ((if p = CHR ''d'' then is_digit c else c = p) \<and> match_pat ps cs)"
| "match_pat [] (c # cs) = False"
| "match_pat (p # ps) [] = False"

definition num_at :: "string \<Rightarrow> nat \<Rightarrow> nat \<Rightarrow> nat" where
  "num_at s i n = nat_of_digits (take n (drop i s))"

text \<open>
  \<^verbatim>\<open>datetime.strptime(ts_str, '%Y-%m-%d %H:%M:%S.%f')\<close> and
  \<^verbatim>\<open>datetime.strptime(ts_str, '%Y-%m-%d %H:%M:%S')\<close>, on the texts \<^verbatim>\<open>parse_timestamp\<close> is
  called with: the match of the timestamp pattern, whose fields have two digits each
  (four for the year, three for the fraction). On such a text the first parse fails
  exactly when a field is out of range for the calendar, and the second always fails,
  since the fraction is left over. Texts with fields of other widths are not modelled
  (\<open>None\<close>).
\<close>

definition strptime_ms :: "string \<Rightarrow> int option" where
  "strptime_ms ts_str =
     (if match_pat ''dddd-dd-dd dd:dd:dd.ddd'' ts_str
      then make_datetime (num_at ts_str 0 4) (num_at ts_str 5 2) (num_at ts_str 8 2)
             (num_at ts_str 11 2) (num_at ts_str 14 2) (num_at ts_str 17 2)
             (num_at ts_str 20 3 * 1000)
      else None)"

definition strptime_s :: "string \<Rightarrow> int option" where
  "strptime_s ts_str =
     (if match_pat ''dddd-dd-dd dd:dd:dd'' ts_str
      then make_datetime (num_at ts_str 0 4) (num_at ts_str 5 2) (num_at ts_str 8 2)
             (num_at ts_str 11 2) (num_at ts_str 14 2) (num_at ts_str 17 2) 0
      else None)"

text \<open>
  \<^verbatim>\<open>parse_timestamp(ts_str, offset)\<close>. The first argument is what \<^verbatim>\<open>datetime.now()\<close>
  returns when this call reaches it.
\<close>

definition parse_timestamp :: "int \<Rightarrow> string \<Rightarrow> int \<Rightarrow> pyexn + int" where
  "parse_timestamp now ts_str offset =
     (let base_timestamp =
            (case strptime_ms ts_str of
               Some t \<Rightarrow> t
             | None \<Rightarrow> (case strptime_s ts_str of Some t \<Rightarrow> t | None \<Rightarrow> now))
      in add_timedelta base_timestamp offset)"

section \<open>The line segmenter\<close>

text \<open>\<^verbatim>\<open>re.match(r'^(\d{4}-\d{2}-\d{2} \d{2}:\d{2}:\d{2}\.\d{3})', line)\<close>: its group.\<close>

definition timestamp_match :: "string \<Rightarrow> string option" where
  "timestamp_match line =
     (if match_pat ''dddd-dd-dd dd:dd:dd.ddd'' (take 23 line) then Some (take 23 line) else None)"

datatype severity = INFO | WARNING | CRITICAL

definition has_level :: "string \<Rightarrow> bool" where
  "has_level part =
     (contains (strip part) ''INFO'' \<or> contains (strip part) ''WARNING''
      \<or> contains (strip part) ''CRITICAL'')"

definition level_of :: "string \<Rightarrow> severity option" where
  "level_of part =
     (if contains (strip part) ''WARNING'' then Some WARNING
      else if contains (strip part) ''CRITICAL'' then Some CRITICAL
      else if contains (strip part) ''INFO'' then Some INFO
      else None)"

text \<open>
  The loop over \<^verbatim>\<open>comma_parts\<close>: \<open>None\<close> when no part holds a level (\<^verbatim>\<open>info_found\<close> stays
  false), otherwise \<^verbatim>\<open>severity_level\<close> and \<^verbatim>\<open>log_content\<close>.
\<close>

fun find_severity :: "string list \<Rightarrow> (severity option \<times> string) option" where
  "find_severity [] = None"
| "find_severity (part # rest) =
     (if has_level part
      then Some (level_of part, if rest \<noteq> [] then strip (join '','' rest) else [])
      else find_severity rest)"

text \<open>
  The head of the loop body, up to the \<^verbatim>\<open>continue\<close> of a line without severity or
  content: \<open>Inl\<close> when \<^verbatim>\<open>parse_timestamp\<close> raises (the call stands outside the
  \<^verbatim>\<open>try\<close>), \<open>Inr None\<close> for a skipped line, otherwise the timestamp, the severity and
  the content.
\<close>

definition segment_line :: "int \<Rightarrow> int \<Rightarrow> string \<Rightarrow> pyexn + (int \<times> severity option \<times> string) option" where
  "segment_line now offset line0 =
     (let line = strip line0 in
      if line = [] then Inr None
      else
        (case timestamp_match line of
           None \<Rightarrow> Inr None
         | Some g \<Rightarrow>
             (case parse_timestamp now g offset of
                Inl e \<Rightarrow> Inl e
              | Inr timestamp \<Rightarrow>
                  (let rest_of_line = strip (drop (length g) line);
                       comma_parts = split_on (CHR '','') rest_of_line
                   in case find_severity comma_parts of
                        None \<Rightarrow> Inr None
                      | Some (severity_level, log_content) \<Rightarrow>
                          if log_content = [] then Inr None
                          else Inr (Some (timestamp, severity_level, log_content))))))"

section \<open>The record store\<close>

datatype category =
    MISSION_INFO | MISSION_STATE_CHANGED | RC_CHANNELS | SERIAL_TCP_CON
  | CC_PARAMETER | CC_PARAMETER_SHELVE | CC_PARAMETER_TINY | AP_PARAMETER | AP_PARAMETER_TINY
  | MAVLINK_INFO | GA_SET_PARAM | GA_GET_PARAM | GA_PARAM | MAX_SPEED_ESTI
  | MAVLINK_ACTIVE_PORT | CPU | VERSION | BOUNDARY_INTR | VEHICLE_COMMAND | GUIDED_MISSION
  | RESUME_MISSION | RESUME_STATE | CC_PARAMETER_PERF | CC_PARAMETER_DB_PERF
  | SnA_RECEIVING_DATA | SnA_LOGGING | SnA_INFO | SPRAY_INFO | SCHEDULERTASK | FLOWMETER
  | FLOWMETER_INFO | PUMP | NOZZLE | ERROR | OTHER

text \<open>\<^verbatim>\<open>log_data\<close>: every category's list of records.\<close>

type_synonym log_data = "category \<Rightarrow> pydict list"

definition empty_log_data :: log_data where
  "empty_log_data = (\<lambda>c. [])"

definition append_record :: "log_data \<Rightarrow> category \<Rightarrow> pydict \<Rightarrow> log_data" where
  "append_record ld c r = ld(c := ld c @ [r])"

definition error_header :: pydict where
  "error_header =
     [(''timestamp'', VNone),
      (''log_content'', VStr ''::  This is a list of ERROR/FAILURE items extracted from logs  ::'')]"

definition error_separator :: pydict where
  "error_separator =
     [(''timestamp'', VNone),
      (''log_content'', VStr (replicate 81 (CHR ''-'')))]"

definition error_entry :: "int \<Rightarrow> string \<Rightarrow> pydict" where
  "error_entry timestamp log_content = [(''timestamp'', VTime timestamp), (''log_content'', VStr log_content)]"

definition append_to_error_log :: "log_data \<Rightarrow> int \<Rightarrow> string \<Rightarrow> log_data" where
  "append_to_error_log ld timestamp log_content =
     (let ld1 = (if length (ld ERROR) = 0
                 then append_record (append_record ld ERROR error_header) ERROR error_separator
                 else ld)
      in append_record ld1 ERROR (error_entry timestamp log_content))"

definition is_error_message :: "string \<Rightarrow> bool" where
  "is_error_message log_content =
     list_ex (\<lambda>keyword. contains (lower log_content) keyword)
       [''error'', ''warning'', ''exception'', ''failed'', ''failure'', ''fault'',
        ''critical'', ''timeout'', ''crash'', ''abort'', ''denied'', ''refuse'',
        ''invalid'', ''corrupt'', ''missing'', ''not found'', ''unable'',
        ''disconnect'', ''lost'', ''broken'', ''malfunction'', ''alert'',
        ''emergency'', ''panic'', ''fatal'', ''severe'', ''bad'', ''wrong'']"

section \<open>Helpers of the decoders\<close>

definition exn_bind :: "pyexn + 'a \<Rightarrow> ('a \<Rightarrow> pyexn + 'b) \<Rightarrow> pyexn + 'b" where
  "exn_bind m f = (case m of Inl e \<Rightarrow> Inl e | Inr x \<Rightarrow> f x)"

text \<open>\<^verbatim>\<open>[p.strip() for p in log_content.split(',')[1:]]\<close>\<close>

definition data_parts_of :: "string \<Rightarrow> string list" where
  "data_parts_of log_content = map strip (tl (split_on (CHR '','') log_content))"

text \<open>\<^verbatim>\<open>[p.strip() for p in log_content.split(',', n)[1:]]\<close>\<close>

definition data_parts_max :: "nat \<Rightarrow> string \<Rightarrow> string list" where
  "data_parts_max n log_content = map strip (tl (split_max (CHR '','') n log_content))"

text \<open>\<^verbatim>\<open>safe_clean_value(parts[i], t) if len(parts) > i else None\<close>\<close>

definition field_at :: "string list \<Rightarrow> nat \<Rightarrow> target_type \<Rightarrow> pyval" where
  "field_at parts i t = (if i < length parts then safe_clean_value (parts ! i) t else VNone)"

text \<open>The text of a value that is a non-empty string (a value that is true in an \<^verbatim>\<open>if\<close>).\<close>

definition opt_str :: "pyval \<Rightarrow> string option" where
  "opt_str v = (case v of VStr s \<Rightarrow> (if s = [] then None else Some s) | _ \<Rightarrow> None)"

fun str_of_nat :: "nat \<Rightarrow> string" where
  "str_of_nat n =
     (if n < 10 then [''0123456789'' ! n]
      else str_of_nat (n div 10) @ [''0123456789'' ! (n mod 10)])"

definition str_of_int :: "int \<Rightarrow> string" where
  "str_of_int i = (if i < 0 then CHR ''-'' # str_of_nat (nat (- i)) else str_of_nat (nat i))"

text \<open>
  \<^verbatim>\<open>re.search\<close> for a pattern made of a literal text, one or more characters of a class
  (the group) and a literal text again, where the second literal is empty or starts
  with a character outside the class: the group is the maximal run of the class after
  the leftmost occurrence of the first literal that is followed by such a run and the
  second literal.
\<close>

fun re_search_run :: "string \<Rightarrow> (char \<Rightarrow> bool) \<Rightarrow> string \<Rightarrow> string \<Rightarrow> string option" where
  "re_search_run pre cls suf [] = None"
| "re_search_run pre cls suf (c # cs) =
     (if startswith (c # cs) pre
         \<and> takeWhile cls (drop (length pre) (c # cs)) \<noteq> []
         \<and> startswith (dropWhile cls (drop (length pre) (c # cs))) suf
      then Some (takeWhile cls (drop (length pre) (c # cs)))
      else re_search_run pre cls suf cs)"

definition digit_dot :: "char \<Rightarrow> bool" where
  "digit_dot c = (is_digit c \<or> c = CHR ''.'')"

definition word_char :: "char \<Rightarrow> bool" where
  "word_char c =
     (is_digit c \<or> c = CHR ''_''
      \<or> c \<in> set ''abcdefghijklmnopqrstuvwxyz'' \<or> c \<in> set ''ABCDEFGHIJKLMNOPQRSTUVWXYZ'')"

text \<open>\<^verbatim>\<open>re.search(r'\[(.*?)\]', s)\<close>: the dot does not match a newline.\<close>

fun re_bracket :: "string \<Rightarrow> string option" where
  "re_bracket [] = None"
| "re_bracket (c # cs) =
     (if c = CHR ''[''
         \<and> startswith (dropWhile (\<lambda>x. x \<noteq> CHR '']'' \<and> x \<noteq> CHR 0x0A) cs) '']''
      then Some (takeWhile (\<lambda>x. x \<noteq> CHR '']'' \<and> x \<noteq> CHR 0x0A) cs)
      else re_bracket cs)"

text \<open>
  \<^verbatim>\<open>re.match(r'T(\d+)\s+(.+)', s)\<close>: its two groups. When nothing but a newline or the
  end follows the white space, the white space gives its last characters back to the
  second group.
\<close>

definition re_thread :: "string \<Rightarrow> (string \<times> string) option" where
  "re_thread s =
     (case s of
        [] \<Rightarrow> None
      | c # cs \<Rightarrow>
          if c \<noteq> CHR ''T'' then None
          else
            (let ds = takeWhile is_digit cs;
                 ws = takeWhile is_space (dropWhile is_digit cs);
                 r2 = dropWhile is_space (dropWhile is_digit cs);
                 g2 = takeWhile (\<lambda>x. x \<noteq> CHR 0x0A) r2
             in if ds = [] \<or> ws = [] then None
                else if g2 \<noteq> [] then Some (ds, g2)
                else (case filter (\<lambda>k. ws ! k \<noteq> CHR 0x0A) (rev [1..<length ws]) of
                        [] \<Rightarrow> None
                      | k # ks \<Rightarrow> Some (ds, takeWhile (\<lambda>x. x \<noteq> CHR 0x0A) (drop k ws @ r2)))))"

text \<open>The first entry of a table whose pattern occurs in the text.\<close>

definition first_pattern :: "(string \<times> string) list \<Rightarrow> string \<Rightarrow> (string \<times> string) option" where
  "first_pattern table s = find (\<lambda>(pattern, key). contains s pattern) table"

text \<open>\<^verbatim>\<open>s.split(':')[1].strip() if ':' in s else s\<close>\<close>

definition after_colon :: "string \<Rightarrow> string" where
  "after_colon s =
     (if contains s '':'' then
        (case split_on (CHR '':'') s of a # b # r \<Rightarrow> strip b | _ \<Rightarrow> s)
      else s)"

text \<open>
  What the body of the \<^verbatim>\<open>try\<close> does for a decoder that only appends: an exception
  (caught by the handler, which prints and goes on to the next line), no record, or one
  record for the category.
\<close>

definition emit :: "log_data \<Rightarrow> category \<Rightarrow> pyexn + pydict option \<Rightarrow> pyexn option \<times> log_data" where
  "emit ld c res =
     (case res of
        Inl e \<Rightarrow> (Some e, ld)
      | Inr None \<Rightarrow> (None, ld)
      | Inr (Some r) \<Rightarrow> (None, append_record ld c r))"

section \<open>The decoders\<close>

definition mode_mapping :: "(string \<times> int) list" where
  "mode_mapping =
     [(''STABILIZE'', 0), (''ACRO'', 1), (''ALT_HOLD'', 2), (''AUTO'', 3), (''GUIDED'', 4),
      (''LOITER'', 5), (''RTL'', 6), (''CIRCLE'', 7), (''LAND'', 9), (''DRIFT'', 11),
      (''SPORT'', 13), (''FLIP'', 14), (''AUTOTUNE'', 15), (''POSHOLD'', 16), (''BRAKE'', 17),
      (''THROW'', 18), (''AVOID_ADSB'', 19), (''GUIDED_NOGPS'', 20), (''SMART_RTL'', 21),
      (''FLOWHOLD'', 22), (''FOLLOW'', 23), (''ZIGZAG'', 24), (''SYSTEMID'', 25),
      (''AUTOROTATE'', 26)]"

definition decode_mission_info :: "int \<Rightarrow> string \<Rightarrow> pyexn + pydict option" where
  "decode_mission_info timestamp log_content =
     (if contains log_content ''mode, armed, flying'' then Inr None
      else
        (let data_parts = data_parts_of log_content in
         if 9 \<le> length data_parts then
           (let mode_str = field_at data_parts 0 TString;
                armed_str = field_at data_parts 1 TString;
                flying_str = field_at data_parts 2 TString;
                mode_val = (case opt_str mode_str of
                              None \<Rightarrow> VNone
                            | Some m \<Rightarrow> (case map_of mode_mapping (upper m) of
                                           None \<Rightarrow> VNone | Some n \<Rightarrow> VInt n));
                armed_val = (case opt_str armed_str of
                               None \<Rightarrow> VNone
                             | Some a \<Rightarrow> if lower a = ''armed'' then VInt 1
                                         else if lower a = ''disarmed'' then VInt 0 else VNone);
                flying_val = (case opt_str flying_str of
                                None \<Rightarrow> VNone
                              | Some f \<Rightarrow> if lower f = ''flying'' then VInt 1
                                          else if lower f = ''not-flying'' then VInt 0 else VNone)
            in Inr (Some
                 [(''timestamp'', VTime timestamp),
                  (''flight_mode'', mode_str),
                  (''flight_mode_val'', mode_val),
                  (''armed'', armed_str),
                  (''armed_val'', armed_val),
                  (''flying'', flying_str),
                  (''flying_val'', flying_val),
                  (''height_m'', field_at data_parts 3 TFloat),
                  (''speed_ms'', field_at data_parts 4 TFloat),
                  (''climb_rate_ms'', field_at data_parts 5 TFloat),
                  (''heading_deg'', field_at data_parts 6 TFloat),
                  (''lat_deg'', field_at data_parts 7 TFloat),
                  (''lon_deg'', field_at data_parts 8 TFloat)]))
         else Inr None))"

text \<open>\<^verbatim>\<open>part.split('=')[1] if '=' in part else part\<close>\<close>

definition rc_clean :: "string \<Rightarrow> string" where
  "rc_clean part =
     (if contains part ''='' then
        (case split_on (CHR ''='') part of a # b # r \<Rightarrow> b | _ \<Rightarrow> part)
      else part)"

definition decode_rc_channels :: "int \<Rightarrow> string \<Rightarrow> pyexn + pydict option" where
  "decode_rc_channels timestamp log_content =
     (if contains log_content ''rc1, rc2, rc3'' then Inr None
      else
        (let data_parts = data_parts_of log_content in
         if 9 \<le> length data_parts then
           (let cleaned_parts = map rc_clean (take 10 data_parts)
            in Inr (Some
                 [(''timestamp'', VTime timestamp),
                  (''rc1'', field_at cleaned_parts 0 TInt),
                  (''rc2'', field_at cleaned_parts 1 TInt),
                  (''rc3'', field_at cleaned_parts 2 TInt),
                  (''rc4'', field_at cleaned_parts 3 TInt),
                  (''rc5'', field_at cleaned_parts 4 TInt),
                  (''rc6'', field_at cleaned_parts 5 TInt),
                  (''rc7'', field_at cleaned_parts 6 TInt),
                  (''rc8'', field_at cleaned_parts 7 TInt),
                  (''rc9'', field_at cleaned_parts 8 TInt),
                  (''rc10'', field_at cleaned_parts 9 TInt)]))
         else Inr None))"

definition decode_resume_state :: "int \<Rightarrow> string \<Rightarrow> pyexn + pydict option" where
  "decode_resume_state timestamp log_content =
     (if contains log_content ''lat, lon, height'' then Inr None
      else
        (let data_parts = data_parts_of log_content in
         if 6 \<le> length data_parts then
           Inr (Some
             [(''timestamp'', VTime timestamp),
              (''lat'', safe_clean_value (data_parts ! 0) TFloat),
              (''lon'', safe_clean_value (data_parts ! 1) TFloat),
              (''height'', safe_clean_value (data_parts ! 2) TFloat),
              (''yaw'', safe_clean_value (data_parts ! 3) TFloat),
              (''wp'', safe_clean_value (data_parts ! 4) TInt),
              (''spray'', safe_clean_value (data_parts ! 5) TInt)])
         else Inr None))"

definition decode_serial_tcp_con :: "int \<Rightarrow> string \<Rightarrow> pyexn + pydict option" where
  "decode_serial_tcp_con timestamp log_content =
     (if contains log_content ''serial_recv_bytes'' \<or> contains log_content ''Waiting for connection''
         \<or> contains log_content ''Connecting with tcp''
      then Inr None
      else
        (let data_parts = data_parts_of log_content in
         if 2 \<le> length data_parts then
           Inr (Some
             [(''timestamp'', VTime timestamp),
              (''serial_recv_bytes'', safe_clean_value (data_parts ! 0) TInt),
              (''serial_send_bytes'', safe_clean_value (data_parts ! 1) TInt)])
         else Inr None))"

text \<open>
  The message after a tag: the text after the first of the given prefixes the content
  starts with (the last of them is the bare tag), stripped.
\<close>

fun message_after :: "string list \<Rightarrow> string \<Rightarrow> string" where
  "message_after [] log_content = strip log_content"
| "message_after (p # ps) log_content =
     (if startswith log_content p then strip (drop (length p) log_content)
      else message_after ps log_content)"

definition severity_map :: "(int \<times> string) list" where
  "severity_map =
     [(0, ''EMERGENCY''), (1, ''ALERT''), (2, ''CRITICAL''), (3, ''ERROR''), (4, ''WARNING''),
      (5, ''NOTICE''), (6, ''INFO''), (7, ''DEBUG''), (8, ''NONE'')]"

definition decode_vehicle_command :: "int \<Rightarrow> string \<Rightarrow> pyexn + pydict option" where
  "decode_vehicle_command timestamp log_content =
     (if strip log_content = ''VEHICLE_COMMAND'' \<or> strip log_content = ''VEHICLE_COMMAND,''
      then Inr None
      else
        (let message0 = message_after [''VEHICLE_COMMAND, '', ''VEHICLE_COMMAND,'', ''VEHICLE_COMMAND'']
                          log_content
         in if message0 = [] then Inr None
            else
              (let status_part = drop (length ''Sent statustext: '') message0;
                   (message_type, message) =
                     (if startswith message0 ''Sent statustext: '' \<and> contains status_part '':'' then
                        (case py_int (strip (hd (split_on (CHR '':'') status_part))) of
                           None \<Rightarrow> (''STATUS_TEXT_UNKNOWN'', message0)
                         | Some level \<Rightarrow>
                             (''STATUS_TEXT_'' @
                                (case map_of severity_map level of
                                   Some name \<Rightarrow> name
                                 | None \<Rightarrow> ''UNKNOWN_'' @ str_of_int level),
                              (case find_split [] status_part '':'' of
                                 Some (bef, aft) \<Rightarrow> strip aft
                               | None \<Rightarrow> message0)))
                      else ([], message0))
               in Inr (Some
                    [(''timestamp'', VTime timestamp),
                     (''message_type'', VStr message_type),
                     (''message'', VStr message)]))))"

definition decode_schedulertask :: "int \<Rightarrow> string \<Rightarrow> pyexn + pydict option" where
  "decode_schedulertask timestamp log_content =
     (let data_parts = data_parts_of log_content in
      if 3 \<le> length data_parts then
        Inr (Some
          [(''timestamp'', VTime timestamp),
           (''task_name'', VStr (strip (data_parts ! 0))),
           (''parameter'', VStr (strip (data_parts ! 1))),
           (''task_id'', safe_clean_value (data_parts ! 2) TInt)])
      else Inr None)"

text \<open>
  The key and value decoders (\<^verbatim>\<open>CC_PARAMETER_SHELVE\<close>, \<^verbatim>\<open>CC_PARAMETER_TINY\<close>,
  \<^verbatim>\<open>AP_PARAMETER\<close>, \<^verbatim>\<open>GA_SET_PARAM\<close>, \<^verbatim>\<open>GA_PARAM\<close>, and \<^verbatim>\<open>CC_PARAMETER\<close> when the content
  is no error): the value stays a string.
\<close>

definition decode_key_value :: "int \<Rightarrow> string \<Rightarrow> pyexn + pydict option" where
  "decode_key_value timestamp log_content =
     (let data_parts = data_parts_max 2 log_content in
      if 2 \<le> length data_parts then
        Inr (Some
          [(''timestamp'', VTime timestamp),
           (''key'', VStr (strip (data_parts ! 0))),
           (''value'', VStr (strip (data_parts ! 1)))])
      else Inr None)"

definition cc_error_patterns :: "string list" where
  "cc_error_patterns =
     [''Created missing shelve key during startup race:'',
      ''Created missing TinyDB record during startup race:'',
      ''not found in memory or shelve DB'',
      ''not found in TinyDB memory or file'']"

definition decode_ap_parameter_tiny :: "int \<Rightarrow> string \<Rightarrow> pyexn + pydict option" where
  "decode_ap_parameter_tiny timestamp log_content =
     (let data_parts = data_parts_of log_content in
      if 2 \<le> length data_parts then
        (let key = (if 3 \<le> length data_parts then (data_parts ! 0) @ ''_'' @ (data_parts ! 1)
                    else data_parts ! 0);
             val = (if 3 \<le> length data_parts then data_parts ! 2 else data_parts ! 1)
         in Inr (Some
              [(''timestamp'', VTime timestamp),
               (''key'', VStr (strip key)),
               (''value'', VStr (strip val))]))
      else Inr None)"

definition decode_ga_get_param :: "int \<Rightarrow> string \<Rightarrow> pyexn + pydict option" where
  "decode_ga_get_param timestamp log_content =
     (let data_parts = data_parts_max 1 log_content in
      if 1 \<le> length data_parts then
        Inr (Some
          [(''timestamp'', VTime timestamp),
           (''key'', VStr (strip (data_parts ! 0))),
           (''value'', VNone)])
      else Inr None)"

definition decode_mavlink_info :: "int \<Rightarrow> string \<Rightarrow> pyexn + pydict option" where
  "decode_mavlink_info timestamp log_content =
     (if contains log_content ''name, messages_count'' then Inr None
      else
        (let data_parts = data_parts_of log_content in
         if 3 \<le> length data_parts then
           Inr (Some
             [(''timestamp'', VTime timestamp),
              (''name'', VStr (strip (data_parts ! 0))),
              (''messages_count'', safe_clean_value (data_parts ! 1) TInt),
              (''last_message'', VStr (strip (data_parts ! 2))),
              (''status'', if 3 < length data_parts then VStr (strip (data_parts ! 3)) else VNone)])
         else Inr None))"

definition decode_max_speed_esti :: "int \<Rightarrow> string \<Rightarrow> pyexn + pydict option" where
  "decode_max_speed_esti timestamp log_content =
     (case re_search_run ''Calculated max speed '' digit_dot [] log_content of
        None \<Rightarrow> Inr None
      | Some g \<Rightarrow>
          (case py_float g of
             None \<Rightarrow> Inl ValueError
           | Some f \<Rightarrow> Inr (Some [(''timestamp'', VTime timestamp), (''max_speed'', VFloat f)])))"

definition decode_mavlink_active_port :: "int \<Rightarrow> string \<Rightarrow> pyexn + pydict option" where
  "decode_mavlink_active_port timestamp log_content =
     (case re_search_run ''MAVLINK ACTIVE_MAVLINK_PORT is : '' is_digit [] log_content of
        None \<Rightarrow> Inr None
      | Some g \<Rightarrow>
          (case py_int g of
             None \<Rightarrow> Inl ValueError
           | Some i \<Rightarrow> Inr (Some [(''timestamp'', VTime timestamp), (''active_port'', VInt i)])))"

text \<open>
  \<^verbatim>\<open>parse_cpu_info\<close>: the four parts of its result, in the order the function fills
  them. The temperature pattern of the source ends in the three characters
  U+00C2, U+00B0 and \<open>C\<close>.
\<close>

definition cpu_usage_part :: "string \<Rightarrow> pyexn + pydict" where
  "cpu_usage_part data_part =
     (case re_search_run ''CPU usage: '' digit_dot ''%'' data_part of
        None \<Rightarrow> Inr []
      | Some g \<Rightarrow> (case py_float g of
                     None \<Rightarrow> Inl ValueError
                   | Some f \<Rightarrow> Inr [(''cpu_usage_percent'', VFloat f)]))"

definition cpu_ram_part :: "string \<Rightarrow> pyexn + pydict" where
  "cpu_ram_part data_part =
     (case re_search_run ''RAM usage: '' is_digit '' MB'' data_part of
        None \<Rightarrow> Inr []
      | Some g \<Rightarrow> (case py_int g of
                     None \<Rightarrow> Inl ValueError
                   | Some i \<Rightarrow> Inr [(''ram_usage_mb'', VInt i)]))"

definition cpu_load_part :: "string \<Rightarrow> pyexn + pydict" where
  "cpu_load_part data_part =
     (case re_search_run ''Load : ('' (\<lambda>c. is_digit c \<or> c = CHR ''.'' \<or> c = CHR '','' \<or> c = CHR '' '')
             '')'' data_part of
        None \<Rightarrow> Inr []
      | Some g \<Rightarrow>
          (case those (map (\<lambda>x. py_float (strip x)) (split_on (CHR '','') g)) of
             None \<Rightarrow> Inl ValueError
           | Some loads \<Rightarrow>
               Inr [(''load_avg_1min'', if 0 < length loads then VFloat (loads ! 0) else VNone),
                    (''load_avg_5min'', if 1 < length loads then VFloat (loads ! 1) else VNone),
                    (''load_avg_15min'', if 2 < length loads then VFloat (loads ! 2) else VNone)]))"

definition cpu_temp_part :: "string \<Rightarrow> pyexn + pydict" where
  "cpu_temp_part data_part =
     (case re_search_run ''Temp: '' digit_dot [CHR 0xC2, CHR 0xB0, CHR ''C''] data_part of
        None \<Rightarrow> Inr [(''temp_celsius'', VNone)]
      | Some g \<Rightarrow> (case py_float g of
                     None \<Rightarrow> Inl ValueError
                   | Some f \<Rightarrow> Inr [(''temp_celsius'', VFloat f)]))"

definition parse_cpu_info :: "string \<Rightarrow> pyexn + pydict" where
  "parse_cpu_info data_part =
     exn_bind (cpu_usage_part data_part) (\<lambda>r1.
     exn_bind (cpu_ram_part data_part) (\<lambda>r2.
     exn_bind (cpu_load_part data_part) (\<lambda>r3.
     exn_bind (cpu_temp_part data_part) (\<lambda>r4. Inr (r1 @ r2 @ r3 @ r4)))))"

definition decode_cpu :: "int \<Rightarrow> string \<Rightarrow> pyexn + pydict option" where
  "decode_cpu timestamp log_content =
     exn_bind (parse_cpu_info log_content) (\<lambda>cpu_data.
       if cpu_data = [] then Inr None else Inr (Some ((''timestamp'', VTime timestamp) # cpu_data)))"

definition version_record :: "int \<Rightarrow> string \<Rightarrow> string \<Rightarrow> string \<Rightarrow> string \<Rightarrow> pydict" where
  "version_record timestamp component version component_type raw_data =
     [(''timestamp'', VTime timestamp),
      (''component'', VStr component),
      (''version'', VStr version),
      (''component_type'', VStr component_type),
      (''raw_data'', VStr raw_data)]"

definition decode_version :: "int \<Rightarrow> string \<Rightarrow> pyexn + pydict option" where
  "decode_version timestamp log_content =
     (let version_data = strip (drop 8 log_content) in
      if startswith version_data ''v'' \<and> length (split_ws version_data) = 1 then
        Inr (Some (version_record timestamp ''CC'' version_data ''Companion Computer'' log_content))
      else if contains version_data ''AP/FCS version'' then
        (let version_str =
               (case re_search_run ''GA ArduCopter V'' (\<lambda>c. c \<noteq> CHR ''('') [] version_data of
                  Some g \<Rightarrow> strip g
                | None \<Rightarrow> after_colon version_data)
         in Inr (Some (version_record timestamp ''AP/FCS'' version_str ''Flight Controller'' log_content)))
      else if contains version_data ''GCS App version'' then
        Inr (Some (version_record timestamp ''GCS App'' (after_colon version_data) ''Ground Station''
                     log_content))
      else
        Inr (Some (version_record timestamp ''Unknown'' version_data ''unknown'' log_content)))"

definition decode_sna_version :: "int \<Rightarrow> string \<Rightarrow> pyexn + pydict option" where
  "decode_sna_version timestamp log_content =
     (case re_search_run ''SnA version: '' word_char [] log_content of
        None \<Rightarrow> Inr None
      | Some g \<Rightarrow> Inr (Some (version_record timestamp ''SnA'' g ''Sense & Avoid'' log_content)))"

definition decode_sna_receiving :: "int \<Rightarrow> string \<Rightarrow> pyexn + pydict option" where
  "decode_sna_receiving timestamp log_content =
     (let data_part = strip (drop (length ''SnA:Receiving data,'') log_content);
          data_parts = map strip (split_on (CHR '','') data_part)
      in if 9 \<le> length data_parts then
           Inr (Some
             [(''timestamp'', VTime timestamp),
              (''data_val1'', safe_clean_value (data_parts ! 0) TFloat),
              (''data_val2'', safe_clean_value (data_parts ! 1) TFloat),
              (''data_val3'', safe_clean_value (data_parts ! 2) TFloat),
              (''data_val4'', safe_clean_value (data_parts ! 3) TFloat),
              (''data_val5'', safe_clean_value (data_parts ! 4) TFloat),
              (''data_val6'', safe_clean_value (data_parts ! 5) TFloat),
              (''data_val7'', safe_clean_value (data_parts ! 6) TFloat),
              (''data_val8'', safe_clean_value (data_parts ! 7) TInt),
              (''data_val9'', safe_clean_value (data_parts ! 8) TInt)])
         else Inr None)"

definition sna_info_category :: "string \<Rightarrow> string" where
  "sna_info_category message =
     (if startswith message ''BOUNDARY_DATA'' then ''BOUNDARY DATA''
      else if startswith message ''BOUNDARY_ITEM_INT'' then ''BOUNDARY ITEM''
      else if startswith message ''BOUNDARY_COUNT'' then ''BOUNDARY COUNT''
      else if contains message ''Grid obstacle details:'' then ''GRID OBSTACLE''
      else if contains message ''Real time obstacle details:'' then ''REAL-TIME OBSTACLE''
      else if list_ex (\<lambda>keyword. contains message keyword)
                [''Guided GOTO_LAT_LON_CHANGED:'', ''Guided ALT_CHANGED:'',
                 ''Ignoring radar data marker'', ''Checking obstacle in'',
                 ''Ignore and Ignoring radar data markers'']
        then ''GUIDED/NAVIGATION INFO''
      else if contains message ''Grid data updated with''
              \<and> contains message (''data'' @ [CHR 0x27] @ ''s in logs/sna/'')
        then ''GRID UPDATE''
      else [])"

definition decode_sna_info :: "int \<Rightarrow> string \<Rightarrow> pyexn + pydict option" where
  "decode_sna_info timestamp log_content =
     (if strip log_content = ''SnAInfo'' \<or> strip log_content = ''SnAInfo,'' then Inr None
      else
        (let message = message_after [''SnAInfo, '', ''SnAInfo: '', ''SnAInfo : '', ''SnAInfo,'', ''SnAInfo'']
                         log_content
         in if message = [] then Inr None
            else Inr (Some
                   [(''timestamp'', VTime timestamp),
                    (''category'', VStr (sna_info_category message)),
                    (''message'', VStr message)])))"

definition known_messages :: "(string \<times> string) list" where
  "known_messages =
     [(''START MISSION RECEIVED'', ''START_MISSION_RECEIVED''),
      (''RTL COMMAND RECEIVED'', ''RTL_COMMAND_RECEIVED''),
      (''RESUME COMMAND RECEIVED'', ''RESUME_COMMAND_RECEIVED''),
      (''GOTO COMMAND RECEIVED'', ''GOTO_COMMAND_RECEIVED''),
      (''STOPPING GUIDED CONTROLLER'', ''STOPPING_CONTROLLER''),
      (''RESTART FROM SNA'', ''RESTART_FROM_SNA''),
      (''Mode changed to guided'', ''MODE_CHANGE_GUIDED''),
      ('' Mode changed to guided'', ''MODE_CHANGE_GUIDED''),
      (''guided take_off'', ''TAKEOFF''),
      (''taking done'', ''TAKEOFF_COMPLETE''),
      (''Turning Yaw'', ''SET_YAW''),
      (''Checking HDNG'', ''CHECK_HEADING''),
      (''Checking Yaw'', ''CHECK_YAW''),
      (''No obstacle in front'', ''NO_OBSTACLE''),
      (''following guided path.'', ''FOLLOWING_PATH''),
      (''Smart_Path updated'', ''PATH_UPDATED''),
      (''Resume Triggered, Guided Mode.'', ''RESUME_TRIGGERED''),
      (''RTL Mode, Guided Mode'', ''RTL_TRIGGERED''),
      (''Starting spray'', ''START_SPRAY''),
      (''change_mode_to_auto'', ''MODE_CHANGE_AUTO''),
      (''Resetting smart path index and sending resume waypoint message'', ''RESET_PATH_INDEX''),
      (''starting scheduler_update_mission task.'', ''START_SCHEDULER'')]"

text \<open>\<^verbatim>\<open>m.group(1) if m else guided_data\<close> for a search result \<open>m\<close>.\<close>

definition group_or :: "string option \<Rightarrow> string \<Rightarrow> string" where
  "group_or m d = (case m of Some g \<Rightarrow> g | None \<Rightarrow> d)"

text \<open>
  The structured patterns of a \<^verbatim>\<open>GUIDED_MISSION\<close> message that no known message
  matches: the state key and the description, \<open>None\<close> when \<^verbatim>\<open>state_key\<close> stays
  \<^verbatim>\<open>None\<close>.
\<close>

definition guided_special :: "string \<Rightarrow> (string \<times> string) option" where
  "guided_special guided_data =
     (if startswith guided_data ''home_point :'' then
        Some (''HOME_POINT'', group_or (re_bracket guided_data) guided_data)
      else if startswith guided_data ''GOTO_TEST,'' then
        Some (''GOTO_TEST'', strip (drop (length ''GOTO_TEST,'') guided_data))
      else if contains guided_data ''new_path_updated :'' then
        Some (''NEW_PATH_UPDATED'', after_colon guided_data)
      else if contains guided_data ''Going to waypoint'' then
        Some (''GOTO_WAYPOINT'', guided_data)
      else if contains guided_data ''Next waypoint set to:'' then
        Some (''NEXT_WAYPOINT_SET'',
              (case find_split [] guided_data '':'' of
                 Some (bef, aft) \<Rightarrow> strip aft | None \<Rightarrow> guided_data))
      else if contains guided_data ''increased smart_path_index + 1 :'' then
        Some (''INCREMENT_PATH_INDEX'', group_or (re_search_run '': '' is_digit [] guided_data) guided_data)
      else if contains guided_data ''time taken for calculation :'' then
        Some (''CALCULATION_TIME'', group_or (re_search_run '': '' is_digit [] guided_data) guided_data)
      else if contains guided_data ''Yaw is not within tolerance'' then
        Some (''YAW_TOLERANCE_FAILED'',
              group_or (re_search_run ''yaw_diff='' digit_dot [] guided_data) guided_data)
      else if contains guided_data ''State change failed'' then
        Some (''STATE_CHANGE_FAILED'',
              group_or (re_search_run ''time elapsed '' is_digit [] guided_data) guided_data)
      else None)"

definition decode_guided :: "int \<Rightarrow> string \<Rightarrow> pyexn + pydict option" where
  "decode_guided timestamp log_content =
     (let message_type = (if startswith log_content ''GUIDED_MISSION,'' then ''GUIDED_MISSION''
                          else ''GUIDED_INFO'');
          guided_data = strip (drop (length message_type + 1) log_content);
          (state_key, description) =
            (if message_type = ''GUIDED_INFO'' then
               (case (if contains guided_data '', '' then find_split [] guided_data '', '' else None) of
                  Some (bef, aft) \<Rightarrow> (strip aft, strip bef @ '', '' @ strip aft)
                | None \<Rightarrow> (guided_data, guided_data))
             else
               (case map_of known_messages guided_data of
                  Some key \<Rightarrow> (key, guided_data)
                | None \<Rightarrow>
                    (case first_pattern known_messages guided_data of
                       Some (pattern, key) \<Rightarrow> (key, guided_data)
                     | None \<Rightarrow>
                         (case guided_special guided_data of
                            Some sd \<Rightarrow> sd
                          | None \<Rightarrow> ([], guided_data)))))
      in Inr (Some
           [(''timestamp'', VTime timestamp),
            (''message_type'', VStr message_type),
            (''state_key'', VStr state_key),
            (''description'', VStr description)]))"

definition known_resume_patterns :: "(string \<times> string) list" where
  "known_resume_patterns =
     [(''setting resume height'', ''SET_RESUME_HEIGHT''),
      (''Resume mission aborted'', ''MISSION_ABORTED''),
      (''TAKEOFF, taking off'', ''TAKEOFF_OPERATION''),
      (''taking done'', ''TAKEOFF_COMPLETE''),
      (''climb_to_clearance_alt'', ''CLIMB_CLEARANCE''),
      (''change_mode_to_guided'', ''MODE_CHANGE_GUIDED''),
      (''change_mode_to_auto'', ''MODE_CHANGE_AUTO''),
      (''Turning Yaw'', ''TURNING_YAW''),
      (''Checking Yaw'', ''CHECKING_YAW''),
      (''Setting YAW'', ''SETTING_YAW''),
      (''No obstacle in front'', ''NO_OBSTACLE''),
      (''Starting spray'', ''START_SPRAY''),
      (''goto_rtl_loc'', ''GOTO_RTL_LOCATION''),
      (''descent_msn_alt'', ''DESCENT_MISSION_ALT''),
      (''flight_mode, resume_state'', ''INFO_HEADER'')]"

definition resume_states :: "string list" where
  "resume_states =
     [''NONE'', ''INITIATE'', ''MODE_CHANGE_GUIDED'', ''TAKE_OFF'', ''CLIMB_CLR_ALT'',
      ''SET_HDNG'', ''CHECK_HDNG'', ''OBST_IN_FRONT'', ''GOTO_RTL_LOC'',
      ''DESCENT_MSN_ALT'', ''START_SPRAY'', ''SET_NEXT_WP'', ''MODE_CHANGE_AUTO'',
      ''ABORT'', ''OBST_DETECTED'', ''RTL'', ''STOP_YAW'', ''AUTO_OBS_INFRONT'', ''START_AUTO'']"

text \<open>The message type and the data of a \<^verbatim>\<open>RESUME\<close> line.\<close>

definition resume_split :: "string \<Rightarrow> string \<times> string" where
  "resume_split log_content =
     (let message_type = (if startswith log_content ''RESUME_MISSION_STATUS,'' then ''RESUME_MISSION_STATUS''
                          else if startswith log_content ''RESUME_INFO,'' then ''RESUME_INFO''
                          else ''RESUME'')
      in (message_type, strip (drop (length message_type + 1) log_content)))"

definition decode_resume :: "int \<Rightarrow> string \<Rightarrow> pydict" where
  "decode_resume timestamp log_content =
     (let (message_type, resume_data) = resume_split log_content;
          (state_key, description) =
            (case first_pattern known_resume_patterns resume_data of
               Some (pattern, key) \<Rightarrow>
                 (key, if pattern = ''setting resume height''
                       then group_or (re_search_run '': '' digit_dot [] resume_data) resume_data
                       else resume_data)
             | None \<Rightarrow>
                 (case find (\<lambda>state. contains (upper resume_data) state) resume_states of
                    Some state \<Rightarrow> (''STATE_'' @ state, resume_data)
                  | None \<Rightarrow> (''UNKNOWN_MESSAGE'', resume_data)))
      in [(''timestamp'', VTime timestamp),
          (''message_type'', VStr message_type),
          (''state_key'', VStr state_key),
          (''description'', VStr description)])"

definition resume_is_error :: "string \<Rightarrow> bool" where
  "resume_is_error log_content =
     (contains (lower (snd (resume_split log_content))) ''aborted''
      \<or> contains (lower (snd (resume_split log_content))) ''failed'')"

text \<open>\<^verbatim>\<open>parts[i]\<close>, with its \<^verbatim>\<open>IndexError\<close>.\<close>

definition nth_part :: "string list \<Rightarrow> nat \<Rightarrow> pyexn + string" where
  "nth_part parts i = (if i < length parts then Inr (parts ! i) else Inl IndexError)"

text \<open>The value of \<^verbatim>\<open>time_taken\<close>: \<^verbatim>\<open>re.search(r'([\d.]+)ms', remaining)\<close> and \<^verbatim>\<open>float\<close>.\<close>

definition perf_time :: "string \<Rightarrow> pyexn + pyval" where
  "perf_time remaining =
     (case re_search_run [] digit_dot ''ms'' remaining of
        None \<Rightarrow> Inr VNone
      | Some g \<Rightarrow> (case py_float g of None \<Rightarrow> Inl ValueError | Some f \<Rightarrow> Inr (VFloat f)))"

text \<open>\<^verbatim>\<open>param_name\<close>, \<^verbatim>\<open>value\<close>, \<^verbatim>\<open>state\<close> and \<^verbatim>\<open>time_taken\<close> of a performance record.\<close>

definition perf_fields :: "string \<Rightarrow> pyexn + (pyval \<times> pyval \<times> pyval \<times> pyval)" where
  "perf_fields remaining =
     (let parts = split_ws remaining in
      if contains remaining ''NOT_FOUND'' then
        exn_bind (nth_part parts 0) (\<lambda>p0.
        exn_bind (perf_time remaining) (\<lambda>t. Inr (VStr p0, VNone, VStr ''NOT_FOUND'', t)))
      else if contains remaining ''NO_CHANGE'' then
        exn_bind (nth_part parts 0) (\<lambda>p0.
          (let before_no_change =
                 (case find_split [] remaining ''NO_CHANGE'' of
                    Some (bef, aft) \<Rightarrow> split_ws (strip bef) | None \<Rightarrow> [])
           in exn_bind (perf_time remaining) (\<lambda>t.
                Inr (VStr p0,
                     (if 2 \<le> length before_no_change then VStr (before_no_change ! 1) else VNone),
                     VStr ''NO_CHANGE'', t))))
      else if contains remaining ''OUT_OF_RANGE'' then
        exn_bind (nth_part parts 0) (\<lambda>p0.
        exn_bind (nth_part parts 1) (\<lambda>p1.
        exn_bind (perf_time remaining) (\<lambda>t.
          Inr (VStr p0, VStr p1,
               (case re_search_run ''OUT_OF_RANGE('' (\<lambda>c. c \<noteq> CHR '')'') '')'' remaining of
                  Some g \<Rightarrow> VStr (''OUT_OF_RANGE('' @ g @ '')'') | None \<Rightarrow> VNone),
               t))))
      else if contains remaining ''SUCCESS'' then
        exn_bind (nth_part parts 0) (\<lambda>p0.
        exn_bind (nth_part parts 1) (\<lambda>p1.
        exn_bind (perf_time remaining) (\<lambda>t. Inr (VStr p0, VStr p1, VStr ''SUCCESS'', t))))
      else if contains remaining ''FAILED'' then
        exn_bind (nth_part parts 0) (\<lambda>p0.
        exn_bind (nth_part parts 1) (\<lambda>p1.
        exn_bind (perf_time remaining) (\<lambda>t. Inr (VStr p0, VStr p1, VStr ''FAILED'', t))))
      else Inr (VNone, VNone, VNone, VNone))"

definition decode_cc_parameter_perf :: "int \<Rightarrow> string \<Rightarrow> pyexn + pydict option" where
  "decode_cc_parameter_perf timestamp log_content =
     (case re_thread (strip (drop (length ''CC_PARAMETER_PERF:'') log_content)) of
        None \<Rightarrow> Inr None
      | Some (g1, g2) \<Rightarrow>
          (case py_int g1 of
             None \<Rightarrow> Inl ValueError
           | Some thread_id \<Rightarrow>
               exn_bind (perf_fields (strip g2)) (\<lambda>(param_name, val, state, time_taken).
                 Inr (Some
                   [(''timestamp'', VTime timestamp),
                    (''thread_id'', VInt thread_id),
                    (''param_name'', param_name),
                    (''value'', val),
                    (''state'', state),
                    (''time_taken_ms'', time_taken)]))))"

text \<open>\<^verbatim>\<open>remaining[:remaining.rfind(sub)]\<close>, when \<open>sub\<close> occurs in \<open>remaining\<close>.\<close>

definition before_last :: "string \<Rightarrow> string \<Rightarrow> string option" where
  "before_last remaining sub =
     (case find_split [] (rev remaining) (rev sub) of
        Some (bef, aft) \<Rightarrow> Some (rev aft)
      | None \<Rightarrow> None)"

definition db_perf_fields :: "string \<Rightarrow> pyval \<times> string" where
  "db_perf_fields remaining =
     (if startswith remaining ''NO_CHANGE'' then
        (VStr ''NO_CHANGE'', strip (drop (length ''NO_CHANGE'') remaining))
      else if contains remaining ''SUCCESS'' then
        (case before_last remaining ''SUCCESS'' of
           Some b \<Rightarrow> (VStr ''SUCCESS'', strip b)
         | None \<Rightarrow> (VNone, remaining))
      else if startswith remaining ''ERROR'' \<or> contains remaining ''ERROR in'' then
        (VStr ''ERROR'',
         if startswith remaining ''ERROR'' then strip (drop (length ''ERROR'') remaining) else remaining)
      else (VNone, remaining))"

definition decode_cc_parameter_db_perf :: "int \<Rightarrow> string \<Rightarrow> pyexn + pydict option" where
  "decode_cc_parameter_db_perf timestamp log_content =
     (case re_thread (strip (drop (length ''CC_PARAMETER_DB_PERF:'') log_content)) of
        None \<Rightarrow> Inr None
      | Some (g1, g2) \<Rightarrow>
          (case py_int g1 of
             None \<Rightarrow> Inl ValueError
           | Some thread_id \<Rightarrow>
               (let (state, description) = db_perf_fields (strip g2)
                in Inr (Some
                     [(''timestamp'', VTime timestamp),
                      (''thread_id'', VInt thread_id),
                      (''state'', state),
                      (''description'', VStr description)]))))"

subsection \<open>The sensor-fusion record\<close>

definition field_names :: "string list" where
  "field_names =
     [''flight_mode'', ''guided_mission_state'', ''guided_controller_type'',
      ''obstacle_x'', ''obstacle_y'', ''obstacle_x_rot'', ''obstacle_y_rot'',
      ''obstacle_sector'', ''roll'', ''pitch'', ''yaw'', ''px'', ''py'', ''pz'',
      ''vx'', ''vy'', ''speed'', ''speed_rate'', ''terrain_alt'', ''mission_height'',
      ''target_altitude'', ''clearance_altitude'', ''course_over_ground'',
      ''course_over_ground_wVelocity'', ''COG_heading_angle_diff'',
      ''stopping_distance'', ''critical_stopping_distance'', ''heading_available'',
      ''horizontal_movement'', ''ignore_radar_data_near_waypoint'',
      ''ignoring_radar_data_near_waypoint'', ''ignore_radar_data_till'',
      ''braked_in_sna'', ''avoidance_state'', ''edge_avoidance_state'',
      ''false_trigger_restart_state'', ''obstacle_msg_delay_ms'',
      ''radar_delay'', ''grid_update_loop_time'', ''loop_time'', ''obstacle_buffer'']"

definition multi_value_fields_data :: "(string \<times> nat) list" where
  "multi_value_fields_data = [(''obstacle_sector'', 6), (''obstacle_buffer'', 2)]"

definition array_fields :: "string list" where
  "array_fields = [''obstacle_x'', ''obstacle_y'', ''obstacle_x_rot'', ''obstacle_y_rot'']"

definition boolean_fields :: "string list" where
  "boolean_fields =
     [''heading_available'', ''horizontal_movement'', ''ignore_radar_data_near_waypoint'',
      ''ignoring_radar_data_near_waypoint'', ''braked_in_sna'']"

definition numeric_string_fields :: "string list" where
  "numeric_string_fields =
     [''guided_mission_state'', ''guided_controller_type'',
      ''avoidance_state'', ''edge_avoidance_state'', ''false_trigger_restart_state'']"

text \<open>
  \<^verbatim>\<open>for j in range(1, n + 1): record[f"{field_name}{j}"] = values[j-1] if j <= len(values) else None\<close>
\<close>

definition set_multi :: "pydict \<Rightarrow> string \<Rightarrow> pyval list \<Rightarrow> nat \<Rightarrow> pydict" where
  "set_multi record field_name values n =
     foldl (\<lambda>r j. dict_set r (field_name @ str_of_nat j)
                     (if j \<le> length values then values ! (j - 1) else VNone))
       record [1..<n + 1]"

text \<open>
  A field of numeric text: \<^verbatim>\<open>float(value)\<close>, as an \<^verbatim>\<open>int\<close> when it is a whole number,
  and the text itself when it is no number.
\<close>

definition numeric_string_value :: "string \<Rightarrow> pyval" where
  "numeric_string_value v =
     (case py_float v of
        None \<Rightarrow> VStr v
      | Some (Finite q) \<Rightarrow> if of_int \<lfloor>q\<rfloor> = q then VInt \<lfloor>q\<rfloor> else VFloat (Finite q)
      | Some f \<Rightarrow> VFloat f)"

text \<open>The body of the loop over \<^verbatim>\<open>enumerate(field_names)\<close>.\<close>

definition sna_field :: "string list \<Rightarrow> pydict \<Rightarrow> nat \<times> string \<Rightarrow> pydict" where
  "sna_field pipe_parts record ifn =
     (let i = fst ifn; field_name = snd ifn in
      if i < length pipe_parts then
        (let v = (if pipe_parts ! i \<noteq> [] then strip (pipe_parts ! i) else []) in
         if v = [] \<or> upper v = ''NONE'' then
           (case map_of multi_value_fields_data field_name of
              Some n \<Rightarrow> set_multi record field_name [] n
            | None \<Rightarrow>
                if field_name \<in> set array_fields then dict_set record field_name (VList [])
                else dict_set record field_name VNone)
         else if field_name \<in> set array_fields then
           dict_set record field_name (VList (parse_list_values v))
         else
           (case map_of multi_value_fields_data field_name of
              Some n \<Rightarrow> set_multi record field_name (parse_list_values v) n
            | None \<Rightarrow>
                if field_name \<in> set boolean_fields then
                  dict_set record field_name (convert_boolean_to_numeric v)
                else if field_name \<in> set numeric_string_fields then
                  dict_set record field_name (numeric_string_value v)
                else if field_name = ''flight_mode'' then
                  dict_set record field_name (VStr v)
                else
                  dict_set record field_name (fst (safe_clean_value_log (Some v) TAuto False))))
      else
        (case map_of multi_value_fields_data field_name of
           Some n \<Rightarrow> set_multi record field_name [] n
         | None \<Rightarrow>
             if field_name \<in> set array_fields then dict_set record field_name (VList [])
             else dict_set record field_name VNone))"

text \<open>\<^verbatim>\<open>[part.strip() for part in data_part.split('|')]\<close>\<close>

definition pipe_parts_of :: "string \<Rightarrow> string list" where
  "pipe_parts_of log_content =
     map strip (split_on (CHR ''|'') (strip (drop (length ''SnALogging,'') log_content)))"

definition decode_sna_logging :: "int \<Rightarrow> string \<Rightarrow> pyexn + pydict option" where
  "decode_sna_logging timestamp log_content =
     (if contains log_content ''flight_mode |'' then Inr None
      else
        (let pipe_parts = pipe_parts_of log_content in
         if 10 \<le> length pipe_parts then
           Inr (Some (foldl (sna_field pipe_parts) [(''timestamp'', VTime timestamp)]
                        (enumerate 0 field_names)))
         else Inr None))"

subsection \<open>The remaining decoders\<close>

definition decode_mission_state_changed :: "int \<Rightarrow> string \<Rightarrow> pyexn + pydict option" where
  "decode_mission_state_changed timestamp log_content =
     Inr (Some
       [(''timestamp'', VTime timestamp),
        (''value'', safe_clean_value (strip (drop (length ''MISSION_STATE_CHANGED,'') log_content)) TInt)])"

definition decode_spray_info :: "int \<Rightarrow> string \<Rightarrow> pyexn + pydict option" where
  "decode_spray_info timestamp log_content =
     (if contains log_content ''spray_status, pump_pwm'' then Inr None
      else
        (let data_parts = data_parts_of log_content in
         if 12 \<le> length data_parts then
           Inr (Some
             [(''timestamp'', VTime timestamp),
              (''spray_status'', safe_clean_value (data_parts ! 0) TInt),
              (''pump_pwm'', safe_clean_value (data_parts ! 1) TInt),
              (''nozzle_pwm'', safe_clean_value (data_parts ! 2) TInt),
              (''req_flowrate_lpm'', safe_clean_value (data_parts ! 3) TFloat),
              (''actual_flowrate_lpm'', safe_clean_value (data_parts ! 4) TFloat),
              (''flowmeter_pulse'', safe_clean_value (data_parts ! 5) TInt),
              (''payload_rem_l'', safe_clean_value (data_parts ! 6) TFloat),
              (''area_sprayed_acre'', safe_clean_value (data_parts ! 7) TFloat),
              (''req_dosage_l_acre'', safe_clean_value (data_parts ! 8) TFloat),
              (''actual_dosage_l_acre'', safe_clean_value (data_parts ! 9) TFloat),
              (''prv_wp'', safe_clean_value (data_parts ! 10) TInt),
              (''next_wp'', safe_clean_value (data_parts ! 11) TInt)])
         else Inr None))"

definition decode_flowmeter :: "int \<Rightarrow> string \<Rightarrow> pyexn + pydict option" where
  "decode_flowmeter timestamp log_content =
     (if contains log_content ''Flowrate(l/m), Signal_Count'' then Inr None
      else
        (let data_parts = data_parts_of log_content in
         if 2 \<le> length data_parts then
           Inr (Some
             [(''timestamp'', VTime timestamp),
              (''flowrate_lpm'', safe_clean_value (data_parts ! 0) TFloat),
              (''signal_count'', safe_clean_value (data_parts ! 1) TInt)])
         else Inr None))"

text \<open>\<^verbatim>\<open>FLOWMETER_INFO\<close> and \<^verbatim>\<open>PUMP\<close>: the parts after the tag, joined with spaces.\<close>

definition decode_joined :: "string \<Rightarrow> int \<Rightarrow> string \<Rightarrow> pyexn + pydict option" where
  "decode_joined column timestamp log_content =
     Inr (Some
       [(''timestamp'', VTime timestamp),
        (column, VStr (strip (join '' '' (tl (split_on (CHR '','') log_content)))))])"

definition state_mapping :: "(string \<times> pyval) list" where
  "state_mapping =
     [(''Stopped'', VInt 0), (''Stop triggered'', VFloat (Finite (1 / 2))), (''Start'', VInt 1)]"

definition decode_nozzle :: "int \<Rightarrow> string \<Rightarrow> pyexn + pydict option" where
  "decode_nozzle timestamp log_content =
     (let nozzle_state = strip (drop (length ''NOZZLE,'') log_content) in
      Inr (Some
        [(''timestamp'', VTime timestamp),
         (''value'', (case map_of state_mapping nozzle_state of Some v \<Rightarrow> v | None \<Rightarrow> VNone)),
         (''raw_value'', VStr nozzle_state)]))"

definition decode_boundary_intr :: "int \<Rightarrow> string \<Rightarrow> pyexn + pydict option" where
  "decode_boundary_intr timestamp log_content =
     (if strip log_content = ''BOUNDARY_INTR'' \<or> strip log_content = ''BOUNDARY_INTR,'' then Inr None
      else
        (let message = message_after [''BOUNDARY_INTR, '', ''BOUNDARY_INTR,'', ''BOUNDARY_INTR''] log_content
         in if message = [] then Inr None
            else Inr (Some [(''timestamp'', VTime timestamp), (''message'', VStr message)])))"

section \<open>The dispatcher and the scan\<close>

text \<open>The \<^verbatim>\<open>CC_PARAMETER\<close> branch: the error patterns first, then the key and the value.\<close>

definition cc_is_error :: "string \<Rightarrow> bool" where
  "cc_is_error log_content = list_ex (\<lambda>pattern. contains log_content pattern) cc_error_patterns"

definition branch_cc_parameter :: "int \<Rightarrow> string \<Rightarrow> bool \<Rightarrow> log_data \<Rightarrow> pyexn option \<times> log_data" where
  "branch_cc_parameter timestamp log_content added_to_error ld =
     (let is_error = cc_is_error log_content;
          ld1 = (if is_error \<and> \<not> added_to_error then append_to_error_log ld timestamp log_content
                 else ld)
      in emit ld1 CC_PARAMETER (if is_error then Inr None else decode_key_value timestamp log_content))"

definition branch_resume :: "int \<Rightarrow> string \<Rightarrow> bool \<Rightarrow> log_data \<Rightarrow> pyexn option \<times> log_data" where
  "branch_resume timestamp log_content added_to_error ld =
     (let ld1 = append_record ld RESUME_MISSION (decode_resume timestamp log_content)
      in (None,
          if resume_is_error log_content \<and> \<not> added_to_error
          then append_to_error_log ld1 timestamp (''RESUME ERROR: '' @ snd (resume_split log_content))
          else ld1))"

definition branch_other :: "int \<Rightarrow> string \<Rightarrow> bool \<Rightarrow> log_data \<Rightarrow> pyexn option \<times> log_data" where
  "branch_other timestamp log_content added_to_error ld =
     (let ld1 = append_record ld OTHER
                  [(''timestamp'', VTime timestamp), (''log_content'', VStr log_content)]
      in (None,
          if is_error_message log_content \<and> \<not> added_to_error
          then append_to_error_log ld1 timestamp log_content
          else ld1))"

text \<open>
  The body of the \<^verbatim>\<open>try\<close>: the chain of \<^verbatim>\<open>if\<close>/\<^verbatim>\<open>elif\<close> in the order of the source. The
  result is the exception the handler caught, if any, and the store when the body
  ends.
\<close>

definition dispatch :: "int \<Rightarrow> string \<Rightarrow> bool \<Rightarrow> log_data \<Rightarrow> pyexn option \<times> log_data" where
  "dispatch timestamp log_content added_to_error ld =
     (if startswith log_content ''MISSION_INFO'' then
        emit ld MISSION_INFO (decode_mission_info timestamp log_content)
      else if startswith log_content ''RC_CHANNELS'' then
        emit ld RC_CHANNELS (decode_rc_channels timestamp log_content)
      else if startswith log_content ''RESUME_STATE'' then
        emit ld RESUME_STATE (decode_resume_state timestamp log_content)
      else if startswith log_content ''SERIAL_TCP_CON'' then
        emit ld SERIAL_TCP_CON (decode_serial_tcp_con timestamp log_content)
      else if startswith log_content ''VEHICLE_COMMAND'' then
        emit ld VEHICLE_COMMAND (decode_vehicle_command timestamp log_content)
      else if startswith log_content ''SCHEDULERTASK,'' then
        emit ld SCHEDULERTASK (decode_schedulertask timestamp log_content)
      else if startswith log_content ''CC_PARAMETER,'' then
        branch_cc_parameter timestamp log_content added_to_error ld
      else if startswith log_content ''CC_PARAMETER_SHELVE,'' then
        emit ld CC_PARAMETER_SHELVE (decode_key_value timestamp log_content)
      else if startswith log_content ''CC_PARAMETER_TINY,'' then
        emit ld CC_PARAMETER_TINY (decode_key_value timestamp log_content)
      else if startswith log_content ''AP_PARAMETER,'' then
        emit ld AP_PARAMETER (decode_key_value timestamp log_content)
      else if startswith log_content ''AP_PARAMETER_TINY,'' then
        emit ld AP_PARAMETER_TINY (decode_ap_parameter_tiny timestamp log_content)
      else if startswith log_content ''GA_SET_PARAM,'' then
        emit ld GA_SET_PARAM (decode_key_value timestamp log_content)
      else if startswith log_content ''GA_GET_PARAM,'' then
        emit ld GA_GET_PARAM (decode_ga_get_param timestamp log_content)
      else if startswith log_content ''GA_PARAM,'' then
        emit ld GA_PARAM (decode_key_value timestamp log_content)
      else if startswith log_content ''MAVLINK_INFO'' then
        emit ld MAVLINK_INFO (decode_mavlink_info timestamp log_content)
      else if contains log_content ''MAX_SPEED_ESTI'' \<and> contains log_content ''Calculated max speed'' then
        emit ld MAX_SPEED_ESTI (decode_max_speed_esti timestamp log_content)
      else if contains log_content ''MAVLINK ACTIVE_MAVLINK_PORT is :'' then
        emit ld MAVLINK_ACTIVE_PORT (decode_mavlink_active_port timestamp log_content)
      else if startswith log_content ''CPU,'' then
        emit ld CPU (decode_cpu timestamp log_content)
      else if startswith log_content ''VERSION,'' then
        emit ld VERSION (decode_version timestamp log_content)
      else if startswith log_content ''SnAInfo,'' \<and> contains log_content ''SnA version:'' then
        emit ld VERSION (decode_sna_version timestamp log_content)
      else if startswith log_content ''SnA:Receiving data,'' then
        emit ld SnA_RECEIVING_DATA (decode_sna_receiving timestamp log_content)
      else if startswith log_content ''SnAInfo'' then
        emit ld SnA_INFO (decode_sna_info timestamp log_content)
      else if startswith log_content ''GUIDED_MISSION,'' \<or> startswith log_content ''GUIDED_INFO,'' then
        emit ld GUIDED_MISSION (decode_guided timestamp log_content)
      else if startswith log_content ''RESUME_MISSION_STATUS,'' \<or> startswith log_content ''RESUME_INFO,''
              \<or> startswith log_content ''RESUME,'' then
        branch_resume timestamp log_content added_to_error ld
      else if startswith log_content ''CC_PARAMETER_PERF:'' then
        emit ld CC_PARAMETER_PERF (decode_cc_parameter_perf timestamp log_content)
      else if startswith log_content ''CC_PARAMETER_DB_PERF:'' then
        emit ld CC_PARAMETER_DB_PERF (decode_cc_parameter_db_perf timestamp log_content)
      else if startswith log_content ''SnALogging,'' then
        emit ld SnA_LOGGING (decode_sna_logging timestamp log_content)
      else if startswith log_content ''MISSION_STATE_CHANGED,'' then
        emit ld MISSION_STATE_CHANGED (decode_mission_state_changed timestamp log_content)
      else if startswith log_content ''SPRAY_INFO'' then
        emit ld SPRAY_INFO (decode_spray_info timestamp log_content)
      else if startswith log_content ''FlOWMETER,'' \<or> startswith log_content ''FLOWMETER,'' then
        emit ld FLOWMETER (decode_flowmeter timestamp log_content)
      else if startswith log_content ''FLOWMETER_INFO,'' then
        emit ld FLOWMETER_INFO (decode_joined ''flow_sensor_info'' timestamp log_content)
      else if startswith log_content ''PUMP,'' then
        emit ld PUMP (decode_joined ''pump_info'' timestamp log_content)
      else if startswith log_content ''NOZZLE,'' then
        emit ld NOZZLE (decode_nozzle timestamp log_content)
      else if startswith log_content ''BOUNDARY_INTR'' then
        emit ld BOUNDARY_INTR (decode_boundary_intr timestamp log_content)
      else branch_other timestamp log_content added_to_error ld)"

text \<open>\<^verbatim>\<open>severity_level in ['WARNING', 'CRITICAL']\<close>\<close>

definition severity_is_error :: "severity option \<Rightarrow> bool" where
  "severity_is_error sev = (sev = Some WARNING \<or> sev = Some CRITICAL)"

text \<open>
  What the loop does with a line that has a timestamp, a severity and a content: the
  entry for a warning or a critical line, then the body of the \<^verbatim>\<open>try\<close>.
\<close>

definition handle_content :: "int \<Rightarrow> severity option \<Rightarrow> string \<Rightarrow> log_data \<Rightarrow> log_data" where
  "handle_content timestamp severity_level log_content ld =
     (let added_to_error = severity_is_error severity_level;
          ld1 = (if added_to_error then append_to_error_log ld timestamp log_content else ld)
      in snd (dispatch timestamp log_content added_to_error ld1))"

text \<open>
  One iteration of the loop over the lines of the file. \<open>Inl\<close> is an exception that
  leaves \<^verbatim>\<open>parse_log_file\<close>: the scan stops and nothing is returned.
\<close>

definition process_line :: "int \<Rightarrow> int \<Rightarrow> log_data \<Rightarrow> string \<Rightarrow> pyexn + log_data" where
  "process_line now offset ld line =
     (case segment_line now offset line of
        Inl e \<Rightarrow> Inl e
      | Inr None \<Rightarrow> Inr ld
      | Inr (Some (timestamp, severity_level, log_content)) \<Rightarrow>
          Inr (handle_content timestamp severity_level log_content ld))"

text \<open>
  The scan. \<open>clock n\<close> is what \<^verbatim>\<open>datetime.now()\<close> returns while line number \<open>n\<close> is
  processed (a line reads the clock at most once); the lines are numbered from 1.
\<close>

fun scan_lines :: "(nat \<Rightarrow> int) \<Rightarrow> int \<Rightarrow> nat \<Rightarrow> log_data \<Rightarrow> string list \<Rightarrow> pyexn + log_data" where
  "scan_lines clock offset line_num ld [] = Inr ld"
| "scan_lines clock offset line_num ld (line # lines) =
     (case process_line (clock line_num) offset ld line of
        Inl e \<Rightarrow> Inl e
      | Inr ld' \<Rightarrow> scan_lines clock offset (Suc line_num) ld' lines)"

text \<open>
  \<^verbatim>\<open>parse_log_file\<close> on the lines of the file, up to the conversion to data frames: the
  store \<^verbatim>\<open>log_data\<close> at the end of the scan. The default offset is five and a half hours.
\<close>

definition parse_log_file :: "(nat \<Rightarrow> int) \<Rightarrow> int \<Rightarrow> string list \<Rightarrow> pyexn + log_data" where
  "parse_log_file clock timestamp_offset lines = scan_lines clock timestamp_offset 1 empty_log_data lines"

definition default_offset :: int where
  "default_offset = (5 * 3600 + 30 * 60) * 1000000"

definition all_categories :: "category list" where
  "all_categories =
     [MISSION_INFO, MISSION_STATE_CHANGED, RC_CHANNELS, SERIAL_TCP_CON, CC_PARAMETER,
      CC_PARAMETER_SHELVE, CC_PARAMETER_TINY, AP_PARAMETER, AP_PARAMETER_TINY, MAVLINK_INFO,
      GA_SET_PARAM, GA_GET_PARAM, GA_PARAM, MAX_SPEED_ESTI, MAVLINK_ACTIVE_PORT, CPU, VERSION,
      BOUNDARY_INTR, VEHICLE_COMMAND, GUIDED_MISSION, RESUME_MISSION, RESUME_STATE,
      CC_PARAMETER_PERF, CC_PARAMETER_DB_PERF, SnA_RECEIVING_DATA, SnA_LOGGING, SnA_INFO,
      SPRAY_INFO, SCHEDULERTASK, FLOWMETER, FLOWMETER_INFO, PUMP, NOZZLE, ERROR, OTHER]"

text \<open>
  The returned dictionary: the categories that have records, in the order of
  \<^verbatim>\<open>log_data\<close>, each with its rows (the data frame of a category is kept as its list of
  rows; \<^verbatim>\<open>timestamp\<close> is the first key of every row).
\<close>

definition dataframes :: "log_data \<Rightarrow> (category \<times> pydict list) list" where
  "dataframes ld = filter (\<lambda>(c, rows). rows \<noteq> []) (map (\<lambda>c. (c, ld c)) all_categories)"

section \<open>Facts about the string operations\<close>

lemma startswith_iff: "startswith s p \<longleftrightarrow> (\<exists>r. s = p @ r)"
  by (induction s p rule: startswith.induct) auto























lemma not_space_letters:
  "\<not> is_space (CHR ''t'')" "\<not> is_space (CHR ''e'')" "\<not> is_space (CHR ''f'')"
  by (simp_all add: is_space_def)

lemma strip_no_outer_space:
  assumes "v \<noteq> []" "\<not> is_space (hd v)" "\<not> is_space (last v)"
  shows "strip v = v"
proof -
  have 1: "dropWhile is_space v = v" using assms(2) by (simp add: dropWhile_eq_self_iff)
  have "hd (rev v) = last v" using assms(1) by (simp add: hd_rev)
  then have 2: "dropWhile is_space (rev v) = rev v"
    using assms(3) by (simp add: dropWhile_eq_self_iff)
  show ?thesis by (simp add: strip_def lstrip_def rstrip_def 1 2)
qed






section \<open>The value coercion library\<close>





section \<open>The severity marker\<close>










section \<open>The error stream\<close>

lemma append_record_other: "c' \<noteq> c \<Longrightarrow> append_record ld c r c' = ld c'"
  by (simp add: append_record_def)

lemma append_record_same: "append_record ld c r c = ld c @ [r]"
  by (simp add: append_record_def)

lemma append_to_error_log_ERROR:
  "append_to_error_log ld ts c ERROR =
     (if ld ERROR = [] then [error_header, error_separator] else ld ERROR) @ [error_entry ts c]"
  by (simp add: append_to_error_log_def append_record_def)

lemma append_to_error_log_other: "c' \<noteq> ERROR \<Longrightarrow> append_to_error_log ld ts c c' = ld c'"
  by (simp add: append_to_error_log_def append_record_def)

lemma emit_other: "c' \<noteq> c \<Longrightarrow> snd (emit ld c res) c' = ld c'"
  by (simp add: emit_def append_record_other split: sum.splits option.splits)

lemma branch_cc_parameter_ERROR:
  "snd (branch_cc_parameter ts lc added ld) ERROR =
     (if cc_is_error lc \<and> \<not> added then append_to_error_log ld ts lc ERROR else ld ERROR)"
  by (simp add: branch_cc_parameter_def Let_def emit_other)

lemma branch_resume_ERROR:
  "snd (branch_resume ts lc added ld) ERROR =
     (if resume_is_error lc \<and> \<not> added
      then append_to_error_log ld ts (''RESUME ERROR: '' @ snd (resume_split lc)) ERROR
      else ld ERROR)"
  by (simp add: branch_resume_def Let_def append_to_error_log_ERROR append_record_other)

lemma branch_other_ERROR:
  "snd (branch_other ts lc added ld) ERROR =
     (if is_error_message lc \<and> \<not> added then append_to_error_log ld ts lc ERROR else ld ERROR)"
  by (simp add: branch_other_def Let_def append_to_error_log_ERROR append_record_other)

lemma dispatch_ERROR_cases:
  assumes "P (ld ERROR)" and "\<And>c. \<not> added \<Longrightarrow> P (append_to_error_log ld ts c ERROR)"
  shows "P (snd (dispatch ts lc added ld) ERROR)"
  unfolding dispatch_def using assms
  by (simp add: emit_other branch_cc_parameter_ERROR branch_resume_ERROR branch_other_ERROR)

section \<open>The scan and the error stream\<close>

lemmas strip_defs = strip_def lstrip_def rstrip_def is_space_def

lemma strptime_ms_2024: "strptime_ms ''2024-01-01 10:00:00.000'' = Some 63839700000000000"
  by (simp add: strptime_ms_def is_digit_def digit_val_def num_at_def nat_of_digits_def
      make_datetime_def days_in_month_def is_leap_def days_before_year_def days_before_month_def)

lemma parse_timestamp_2024:
  "parse_timestamp now ''2024-01-01 10:00:00.000'' 0 = Inr 63839700000000000"
  by (simp add: parse_timestamp_def strptime_ms_2024 add_timedelta_def max_datetime_def)

lemma handle_content_ERROR_severity:
  assumes "severity_is_error sev"
  shows "handle_content ts sev lc ld ERROR =
           (if ld ERROR = [] then [error_header, error_separator] else ld ERROR)
             @ [error_entry ts lc]"
proof -
  have "snd (dispatch ts lc True (append_to_error_log ld ts lc)) ERROR
          = append_to_error_log ld ts lc ERROR"
    by (rule dispatch_ERROR_cases) simp_all
  then show ?thesis
    using assms by (simp add: handle_content_def append_to_error_log_ERROR)
qed

lemma handle_content_ERROR_step:
  "handle_content ts sev lc ld ERROR = ld ERROR
   \<or> (\<exists>c. handle_content ts sev lc ld ERROR =
          (if ld ERROR = [] then [error_header, error_separator] else ld ERROR)
            @ [error_entry ts c])"
proof (cases "severity_is_error sev")
  case True
  then show ?thesis using handle_content_ERROR_severity by blast
next
  case False
  have "snd (dispatch ts lc False ld) ERROR = ld ERROR
        \<or> (\<exists>c. snd (dispatch ts lc False ld) ERROR =
               (if ld ERROR = [] then [error_header, error_separator] else ld ERROR)
                 @ [error_entry ts c])"
    by (rule dispatch_ERROR_cases) (auto simp: append_to_error_log_ERROR)
  then show ?thesis using False by (simp add: handle_content_def)
qed

text \<open>
  Claim C3. A decodable line is one for which the segmenter gives a timestamp, a
  severity and a payload. Processing it leaves the \<^verbatim>\<open>ERROR\<close> stream as it was or adds
  one entry to it (after the two header rows, when the stream was empty), never more,
  whichever of the severity, the error patterns of a category and the keyword scan
  apply to the line. When the severity is \<^verbatim>\<open>WARNING\<close> or \<^verbatim>\<open>CRITICAL\<close> it adds exactly one
  entry: the timestamp and the payload of the line.
\<close>

theorem one_error_entry_per_line:
  assumes "segment_line now offset line = Inr (Some (ts, sev, lc))"
  shows "\<exists>ld'. process_line now offset ld line = Inr ld'
           \<and> (ld' ERROR = ld ERROR
                \<or> (\<exists>c. ld' ERROR =
                      (if ld ERROR = [] then [error_header, error_separator] else ld ERROR)
                        @ [error_entry ts c]))
           \<and> (sev = Some WARNING \<or> sev = Some CRITICAL \<longrightarrow>
                ld' ERROR =
                  (if ld ERROR = [] then [error_header, error_separator] else ld ERROR)
                    @ [error_entry ts lc])"
proof -
  have p: "process_line now offset ld line = Inr (handle_content ts sev lc ld)"
    using assms by (simp add: process_line_def)
  show ?thesis
    unfolding p
    using handle_content_ERROR_step[of ts sev lc ld] handle_content_ERROR_severity[of sev ts lc ld]
    by (auto simp: severity_is_error_def)
qed


lemma timestamp_match_2024:
  "timestamp_match (''2024-01-01 10:00:00.000'' @ rest) = Some ''2024-01-01 10:00:00.000''"
  by (simp add: timestamp_match_def is_digit_def digit_val_def)

lemma segment_2024:
  assumes "strip line = ''2024-01-01 10:00:00.000'' @ rest"
  shows "segment_line now 0 line =
           (case find_severity (split_on (CHR '','') (strip rest)) of
              None \<Rightarrow> Inr None
            | Some (sev, lc) \<Rightarrow>
                if lc = [] then Inr None else Inr (Some (63839700000000000, sev, lc)))"
  unfolding segment_line_def Let_def assms timestamp_match_2024
  by (simp add: parse_timestamp_2024 split: option.splits)

theorem one_error_entry_per_line_witness:
  "\<exists>ld'. process_line 0 0 empty_log_data ''2024-01-01 10:00:00.000,d,WARNING,CC_PARAMETER, speed_limit, 5.0'' = Inr ld'
         \<and> ld' ERROR = [error_header, error_separator,
                         error_entry 63839700000000000 ''CC_PARAMETER, speed_limit, 5.0'']"
proof -
  have s: "strip ''2024-01-01 10:00:00.000,d,WARNING,CC_PARAMETER, speed_limit, 5.0''
             = ''2024-01-01 10:00:00.000'' @ '',d,WARNING,CC_PARAMETER, speed_limit, 5.0''"
    by (simp add: strip_no_outer_space is_space_def)
  have f: "find_severity (split_on (CHR '','') (strip '',d,WARNING,CC_PARAMETER, speed_limit, 5.0''))
             = Some (Some WARNING, ''CC_PARAMETER, speed_limit, 5.0'')"
    by (simp add: strip_defs has_level_def level_of_def)
  have seg: "segment_line 0 0 ''2024-01-01 10:00:00.000,d,WARNING,CC_PARAMETER, speed_limit, 5.0''
               = Inr (Some (63839700000000000, Some WARNING, ''CC_PARAMETER, speed_limit, 5.0''))"
    by (simp add: segment_2024[OF s] f)
  from one_error_entry_per_line[OF seg, of empty_log_data]
  show ?thesis by (auto simp add: empty_log_data_def)
qed

lemma process_line_ERROR:
  assumes "process_line now offset ld line = Inr ld'"
  shows "ld' ERROR = ld ERROR
         \<or> (\<exists>ts c. ld' ERROR =
               (if ld ERROR = [] then [error_header, error_separator] else ld ERROR)
                 @ [error_entry ts c])"
proof (cases "segment_line now offset line")
  case (Inl e)
  then show ?thesis using assms by (simp add: process_line_def)
next
  case (Inr r)
  show ?thesis
  proof (cases r)
    case None
    then show ?thesis using assms Inr by (simp add: process_line_def)
  next
    case (Some t)
    obtain ts sev lc where t: "t = (ts, sev, lc)" by (cases t) auto
    have "ld' = handle_content ts sev lc ld" using assms Inr Some t by (simp add: process_line_def)
    then show ?thesis
      using handle_content_ERROR_step[of ts sev lc ld] by blast
  qed
qed

lemma header_preserved:
  assumes "rows' = rows
           \<or> (\<exists>ts c. rows' = (if rows = [] then [error_header, error_separator] else rows)
                                @ [error_entry ts c])"
    and "rows = [] \<or> (\<exists>es. rows = error_header # error_separator # es \<and> es \<noteq> []
                         \<and> (\<forall>e\<in>set es. \<exists>ts c. e = error_entry ts c))"
  shows "rows' = [] \<or> (\<exists>es. rows' = error_header # error_separator # es \<and> es \<noteq> []
                         \<and> (\<forall>e\<in>set es. \<exists>ts c. e = error_entry ts c))"
  using assms by (elim disjE exE conjE) (auto split: if_splits)

lemma scan_lines_header:
  assumes "scan_lines clock offset n ld lines = Inr ld'"
    and "ld ERROR = [] \<or> (\<exists>es. ld ERROR = error_header # error_separator # es \<and> es \<noteq> []
                         \<and> (\<forall>e\<in>set es. \<exists>ts c. e = error_entry ts c))"
  shows "ld' ERROR = [] \<or> (\<exists>es. ld' ERROR = error_header # error_separator # es \<and> es \<noteq> []
                         \<and> (\<forall>e\<in>set es. \<exists>ts c. e = error_entry ts c))"
  using assms
proof (induction lines arbitrary: n ld)
  case Nil
  then show ?case by simp
next
  case (Cons line lines)
  from Cons.prems(1) obtain ld1 where
    p: "process_line (clock n) offset ld line = Inr ld1"
    and s: "scan_lines clock offset (Suc n) ld1 lines = Inr ld'"
    by (auto split: sum.splits)
  have "ld1 ERROR = [] \<or> (\<exists>es. ld1 ERROR = error_header # error_separator # es \<and> es \<noteq> []
                         \<and> (\<forall>e\<in>set es. \<exists>ts c. e = error_entry ts c))"
    using header_preserved[OF process_line_ERROR[OF p] Cons.prems(2)] .
  then show ?case using Cons.IH[OF s] by blast
qed

lemma header_not_entry:
  "error_header \<noteq> error_entry ts c" "error_separator \<noteq> error_entry ts c"
  by (simp_all add: error_header_def error_separator_def error_entry_def)

lemma header_not_separator: "error_header \<noteq> error_separator"
proof
  assume "error_header = error_separator"
  then have "length ''::  This is a list of ERROR/FAILURE items extracted from logs  ::''
               = length (replicate 81 (CHR ''-''))"
    by (simp add: error_header_def error_separator_def)
  then show False by simp
qed

text \<open>
  Claim C4. At the end of every scan, an \<^verbatim>\<open>ERROR\<close> stream that is not empty starts
  with the header row and the separator row, both with a null timestamp, and goes on
  with at least one error entry; everything after the two rows is an error entry with
  a timestamp, so each of the two rows occurs exactly once, however many entries were
  added. (An empty stream has no header: the rows are made by the first insertion.)
\<close>

theorem error_stream_header_once:
  assumes "parse_log_file clock offset lines = Inr ld" and "ld ERROR \<noteq> []"
  shows "\<exists>entries. ld ERROR = error_header # error_separator # entries
           \<and> entries \<noteq> []
           \<and> (\<forall>e\<in>set entries. \<exists>ts c. e = error_entry ts c)
           \<and> error_header \<notin> set entries \<and> error_separator \<notin> set entries
           \<and> error_header \<noteq> error_separator
           \<and> map_of error_header ''timestamp'' = Some VNone
           \<and> map_of error_separator ''timestamp'' = Some VNone"
proof -
  have "ld ERROR = [] \<or> (\<exists>es. ld ERROR = error_header # error_separator # es \<and> es \<noteq> []
                         \<and> (\<forall>e\<in>set es. \<exists>ts c. e = error_entry ts c))"
    using scan_lines_header[of clock offset 1 empty_log_data lines ld] assms(1)
    by (simp add: parse_log_file_def empty_log_data_def)
  then obtain es where es: "ld ERROR = error_header # error_separator # es" "es \<noteq> []"
    "\<forall>e\<in>set es. \<exists>ts c. e = error_entry ts c"
    using assms(2) by auto
  have "error_header \<notin> set es" "error_separator \<notin> set es"
    using es(3) header_not_entry by metis+
  then show ?thesis
    using es header_not_separator by (auto simp: error_header_def error_separator_def)
qed


theorem error_stream_header_once_witness:
  "\<exists>ld entries.
      parse_log_file (\<lambda>n. 0) 0 [''2024-01-01 10:00:00.000,d,WARNING,CC_PARAMETER, speed_limit, 5.0'']
        = Inr ld
      \<and> ld ERROR = error_header # error_separator # entries \<and> entries \<noteq> []"
proof -
  have s: "strip ''2024-01-01 10:00:00.000,d,WARNING,CC_PARAMETER, speed_limit, 5.0''
             = ''2024-01-01 10:00:00.000'' @ '',d,WARNING,CC_PARAMETER, speed_limit, 5.0''"
    by (simp add: strip_no_outer_space is_space_def)
  have f: "find_severity (split_on (CHR '','') (strip '',d,WARNING,CC_PARAMETER, speed_limit, 5.0''))
             = Some (Some WARNING, ''CC_PARAMETER, speed_limit, 5.0'')"
    by (simp add: strip_defs has_level_def level_of_def)
  have p: "parse_log_file (\<lambda>n. 0) 0 [''2024-01-01 10:00:00.000,d,WARNING,CC_PARAMETER, speed_limit, 5.0'']
             = Inr (handle_content 63839700000000000 (Some WARNING) ''CC_PARAMETER, speed_limit, 5.0''
                      empty_log_data)"
    by (simp add: parse_log_file_def process_line_def segment_2024[OF s] f)
  have ne: "handle_content 63839700000000000 (Some WARNING) ''CC_PARAMETER, speed_limit, 5.0''
              empty_log_data ERROR \<noteq> []"
    by (simp add: handle_content_ERROR_severity severity_is_error_def)
  from error_stream_header_once[OF p ne] show ?thesis using p by auto
qed

section \<open>The parameter category\<close>

lemma dispatch_cc_parameter:
  assumes "startswith lc ''CC_PARAMETER,''"
  shows "dispatch ts lc added ld = branch_cc_parameter ts lc added ld"
proof -
  from assms obtain r where "lc = ''CC_PARAMETER,'' @ r" by (auto simp: startswith_iff)
  then show ?thesis by (simp add: dispatch_def)
qed

lemma handle_content_cc_error:
  assumes "startswith lc ''CC_PARAMETER,''" and "cc_is_error lc"
  shows "handle_content ts sev lc ld = append_to_error_log ld ts lc"
  using assms
  by (simp add: handle_content_def dispatch_cc_parameter branch_cc_parameter_def emit_def Let_def)

text \<open>
  Claim C10. A decodable line whose payload starts with \<^verbatim>\<open>CC_PARAMETER,\<close> reaches the
  \<^verbatim>\<open>CC_PARAMETER\<close> decoder (no earlier rule of the dispatcher takes it). When the payload
  contains one of the four error patterns, the \<^verbatim>\<open>ERROR\<close> stream gains exactly one entry
  with the payload, whether the severity already added it or the decoder does, and no
  \<^verbatim>\<open>CC_PARAMETER\<close> record is produced, also when the payload splits into a key and a
  value; every other category is left as it was.
\<close>

theorem cc_parameter_error_pattern:
  assumes "segment_line now offset line = Inr (Some (ts, sev, lc))"
    and "startswith lc ''CC_PARAMETER,''"
    and "contains lc ''Created missing shelve key during startup race:''
         \<or> contains lc ''Created missing TinyDB record during startup race:''
         \<or> contains lc ''not found in memory or shelve DB''
         \<or> contains lc ''not found in TinyDB memory or file''"
  shows "\<exists>ld'. process_line now offset ld line = Inr ld'
           \<and> ld' ERROR =
                (if ld ERROR = [] then [error_header, error_separator] else ld ERROR)
                  @ [error_entry ts lc]
           \<and> ld' CC_PARAMETER = ld CC_PARAMETER
           \<and> (\<forall>c. c \<noteq> ERROR \<longrightarrow> ld' c = ld c)"
proof -
  have e: "cc_is_error lc" using assms(3) by (auto simp: cc_is_error_def cc_error_patterns_def)
  have "process_line now offset ld line = Inr (append_to_error_log ld ts lc)"
    using assms(1) by (simp add: process_line_def handle_content_cc_error[OF assms(2) e])
  then show ?thesis
    by (simp add: append_to_error_log_ERROR append_to_error_log_other)
qed

theorem cc_parameter_error_pattern_witness:
  "\<exists>ld'. process_line 0 0 empty_log_data
            ''2024-01-01 10:00:00.000,d,INFO,CC_PARAMETER, speed_limit, not found in memory or shelve DB''
          = Inr ld'
     \<and> ld' ERROR = [error_header, error_separator,
           error_entry 63839700000000000 ''CC_PARAMETER, speed_limit, not found in memory or shelve DB'']
     \<and> ld' CC_PARAMETER = []"
proof -
  have s: "strip ''2024-01-01 10:00:00.000,d,INFO,CC_PARAMETER, speed_limit, not found in memory or shelve DB''
             = ''2024-01-01 10:00:00.000'' @ '',d,INFO,CC_PARAMETER, speed_limit, not found in memory or shelve DB''"
    by (simp add: strip_no_outer_space is_space_def)
  have f: "find_severity (split_on (CHR '','')
              (strip '',d,INFO,CC_PARAMETER, speed_limit, not found in memory or shelve DB''))
             = Some (Some INFO, ''CC_PARAMETER, speed_limit, not found in memory or shelve DB'')"
    by (simp add: strip_defs has_level_def level_of_def)
  have seg: "segment_line 0 0 ''2024-01-01 10:00:00.000,d,INFO,CC_PARAMETER, speed_limit, not found in memory or shelve DB''
               = Inr (Some (63839700000000000, Some INFO,
                   ''CC_PARAMETER, speed_limit, not found in memory or shelve DB''))"
    by (simp add: segment_2024[OF s] f)
  have a2: "startswith ''CC_PARAMETER, speed_limit, not found in memory or shelve DB'' ''CC_PARAMETER,''"
    by simp
  have a3: "contains ''CC_PARAMETER, speed_limit, not found in memory or shelve DB''
              ''not found in memory or shelve DB''"
    by simp
  from cc_parameter_error_pattern[OF seg a2, of empty_log_data] a3
  show ?thesis by (auto simp add: empty_log_data_def)
qed

section \<open>The mission telemetry scenario\<close>

lemma decode_mission_info_guided:
  "decode_mission_info ts ''MISSION_INFO,GUIDED,armed,flying,12.5,3.2,0.1,90.0,18.52,73.85''
     = Inr (Some
         [(''timestamp'', VTime ts),
          (''flight_mode'', VStr ''GUIDED''),
          (''flight_mode_val'', VInt 4),
          (''armed'', VStr ''armed''),
          (''armed_val'', VInt 1),
          (''flying'', VStr ''flying''),
          (''flying_val'', VInt 1),
          (''height_m'', VFloat (Finite (25 / 2))),
          (''speed_ms'', VFloat (Finite (16 / 5))),
          (''climb_rate_ms'', VFloat (Finite (1 / 10))),
          (''heading_deg'', VFloat (Finite 90)),
          (''lat_deg'', VFloat (Finite (463 / 25))),
          (''lon_deg'', VFloat (Finite (1477 / 20)))])"
proof -
  have d: "data_parts_of ''MISSION_INFO,GUIDED,armed,flying,12.5,3.2,0.1,90.0,18.52,73.85''
             = [''GUIDED'', ''armed'', ''flying'', ''12.5'', ''3.2'', ''0.1'', ''90.0'', ''18.52'', ''73.85'']"
    by (simp add: data_parts_of_def strip_defs)
  have h: "\<not> contains ''MISSION_INFO,GUIDED,armed,flying,12.5,3.2,0.1,90.0,18.52,73.85'' ''mode, armed, flying''"
    by simp
  have st: "safe_clean_value ''GUIDED'' TString = VStr ''GUIDED''"
    "safe_clean_value ''armed'' TString = VStr ''armed''"
    "safe_clean_value ''flying'' TString = VStr ''flying''"
    by (simp_all add: safe_clean_value_def safe_clean_value_log_def strip_defs)
  have fl: "py_float ''12.5'' = Some (Finite (25 / 2))" "py_float ''3.2'' = Some (Finite (16 / 5))"
    "py_float ''0.1'' = Some (Finite (1 / 10))" "py_float ''90.0'' = Some (Finite 90)"
    "py_float ''18.52'' = Some (Finite (463 / 25))" "py_float ''73.85'' = Some (Finite (1477 / 20))"
    by (simp_all add: py_float_def cstrip_def is_cspace_def split_sign_def lower_def lower_char_def
        parse_decimal_def is_digit_def digit_val_def parse_exponent_def scale10_def nat_of_digits_def)
  have sf: "safe_clean_value ''12.5'' TFloat = VFloat (Finite (25 / 2))"
    "safe_clean_value ''3.2'' TFloat = VFloat (Finite (16 / 5))"
    "safe_clean_value ''0.1'' TFloat = VFloat (Finite (1 / 10))"
    "safe_clean_value ''90.0'' TFloat = VFloat (Finite 90)"
    "safe_clean_value ''18.52'' TFloat = VFloat (Finite (463 / 25))"
    "safe_clean_value ''73.85'' TFloat = VFloat (Finite (1477 / 20))"
    by (simp_all add: safe_clean_value_def safe_clean_value_log_def strip_defs fl)
  have up: "upper ''GUIDED'' = ''GUIDED''" by (simp add: upper_def upper_char_def)
  have lo: "lower ''armed'' = ''armed''" "lower ''flying'' = ''flying''"
    by (simp_all add: lower_def lower_char_def)
  have mm: "map_of mode_mapping ''GUIDED'' = Some 4" by (simp add: mode_mapping_def)
  show ?thesis
    unfolding decode_mission_info_def Let_def d
    using h by (simp add: field_at_def st sf opt_str_def up lo mm)
qed

text \<open>
  Claim C5. With a zero offset, whatever the clock, the scan of the single line
  \<^verbatim>\<open>2024-01-01 10:00:00.000,drone1,INFO,MISSION_INFO,GUIDED,armed,flying,12.5,3.2,0.1,90.0,18.52,73.85\<close>
  ends with exactly one \<^verbatim>\<open>MISSION_INFO\<close> record and nothing in any other category. In
  the record \<^verbatim>\<open>flight_mode\<close> is \<^verbatim>\<open>GUIDED\<close>, \<^verbatim>\<open>flight_mode_val\<close> is 4, \<^verbatim>\<open>armed_val\<close> and
  \<^verbatim>\<open>flying_val\<close> are 1 and \<^verbatim>\<open>height_m\<close> is 12.5; the timestamp is 2024-01-01 10:00:00,
  in microseconds since the first instant.
\<close>

theorem mission_info_scenario:
  "parse_log_file clock 0
     [''2024-01-01 10:00:00.000,drone1,INFO,MISSION_INFO,GUIDED,armed,flying,12.5,3.2,0.1,90.0,18.52,73.85'']
   = Inr (empty_log_data
       (MISSION_INFO :=
          [[(''timestamp'', VTime 63839700000000000),
            (''flight_mode'', VStr ''GUIDED''),
            (''flight_mode_val'', VInt 4),
            (''armed'', VStr ''armed''),
            (''armed_val'', VInt 1),
            (''flying'', VStr ''flying''),
            (''flying_val'', VInt 1),
            (''height_m'', VFloat (Finite (25 / 2))),
            (''speed_ms'', VFloat (Finite (16 / 5))),
            (''climb_rate_ms'', VFloat (Finite (1 / 10))),
            (''heading_deg'', VFloat (Finite 90)),
            (''lat_deg'', VFloat (Finite (463 / 25))),
            (''lon_deg'', VFloat (Finite (1477 / 20)))]]))"
proof -
  have s: "strip ''2024-01-01 10:00:00.000,drone1,INFO,MISSION_INFO,GUIDED,armed,flying,12.5,3.2,0.1,90.0,18.52,73.85''
             = ''2024-01-01 10:00:00.000'' @ '',drone1,INFO,MISSION_INFO,GUIDED,armed,flying,12.5,3.2,0.1,90.0,18.52,73.85''"
    by (simp add: strip_no_outer_space is_space_def)
  have f: "find_severity (split_on (CHR '','')
              (strip '',drone1,INFO,MISSION_INFO,GUIDED,armed,flying,12.5,3.2,0.1,90.0,18.52,73.85''))
             = Some (Some INFO, ''MISSION_INFO,GUIDED,armed,flying,12.5,3.2,0.1,90.0,18.52,73.85'')"
    by (simp add: strip_defs has_level_def level_of_def)
  have d: "dispatch 63839700000000000 ''MISSION_INFO,GUIDED,armed,flying,12.5,3.2,0.1,90.0,18.52,73.85'' False ld
             = emit ld MISSION_INFO (decode_mission_info 63839700000000000
                 ''MISSION_INFO,GUIDED,armed,flying,12.5,3.2,0.1,90.0,18.52,73.85'')" for ld
    by (simp add: dispatch_def)
  show ?thesis
    by (simp add: parse_log_file_def process_line_def segment_2024[OF s] f handle_content_def
        severity_is_error_def d decode_mission_info_guided emit_def append_record_def
        empty_log_data_def)
qed

theorem mission_info_scenario_witness:
  "\<exists>ld r. parse_log_file (\<lambda>n. 0) 0
       [''2024-01-01 10:00:00.000,drone1,INFO,MISSION_INFO,GUIDED,armed,flying,12.5,3.2,0.1,90.0,18.52,73.85'']
       = Inr ld
     \<and> ld MISSION_INFO = [r] \<and> ld ERROR = [] \<and> ld OTHER = []
     \<and> map_of r ''flight_mode'' = Some (VStr ''GUIDED'')
     \<and> map_of r ''flight_mode_val'' = Some (VInt 4)
     \<and> map_of r ''armed_val'' = Some (VInt 1)
     \<and> map_of r ''flying_val'' = Some (VInt 1)
     \<and> map_of r ''height_m'' = Some (VFloat (Finite (25 / 2)))"
  using mission_info_scenario[of "\<lambda>n. 0"] by (simp add: empty_log_data_def)

section \<open>The sensor-fusion decoder\<close>

lemma map_of_dict_set:
  "map_of (dict_set r k v) k' = (if k' = k then Some v else map_of r k')"
  by (induction r) auto

lemma map_of_set_multi_other:
  "(\<forall>j. k \<noteq> fn @ str_of_nat j) \<Longrightarrow> map_of (set_multi r fn vs n) k = map_of r k"
proof -
  assume a: "\<forall>j. k \<noteq> fn @ str_of_nat j"
  have "map_of (foldl (\<lambda>r j. dict_set r (fn @ str_of_nat j)
                     (if j \<le> length vs then vs ! (j - 1) else VNone)) r js) k = map_of r k" for js
    using a by (induction js arbitrary: r) (simp_all add: map_of_dict_set)
  then show ?thesis by (simp add: set_multi_def)
qed

lemma sna_field_shape:
  "(\<exists>v. sna_field pp r (i, fn) = dict_set r fn v)
   \<or> (\<exists>vs n. sna_field pp r (i, fn) = set_multi r fn vs n)"
  unfolding sna_field_def Let_def fst_conv snd_conv
  by (cases "map_of multi_value_fields_data fn") auto

lemma sna_field_other:
  assumes "k \<noteq> fn" and "\<forall>j. k \<noteq> fn @ str_of_nat j"
  shows "map_of (sna_field pp r (i, fn)) k = map_of r k"
  using sna_field_shape[of pp r i fn] assms
  by (auto simp: map_of_dict_set map_of_set_multi_other)

lemma sna_fold_other:
  assumes "\<forall>(i, fn)\<in>set xs. k \<noteq> fn \<and> (\<forall>j. k \<noteq> fn @ str_of_nat j)"
  shows "map_of (foldl (sna_field pp) r xs) k = map_of r k"
  using assms
proof (induction xs arbitrary: r)
  case Nil
  then show ?case by simp
next
  case (Cons x xs)
  obtain i fn where x: "x = (i, fn)" by (cases x) auto
  have "map_of (sna_field pp r (i, fn)) k = map_of r k"
    using Cons.prems x by (intro sna_field_other) auto
  then show ?case using Cons x by simp
qed


lemma upt_1_7: "[1..<6 + 1] = [1, 2, 3, 4, 5, 6::nat]"
  by code_simp

lemma digits_1_6:
  "str_of_nat (Suc 0) = ''1''" "str_of_nat 1 = ''1''" "str_of_nat 2 = ''2''" "str_of_nat 3 = ''3''"
  "str_of_nat 4 = ''4''" "str_of_nat 5 = ''5''" "str_of_nat 6 = ''6''"
  by simp_all

lemma sector_nulls:
  "map_of (set_multi r ''obstacle_sector'' [] 6) ''obstacle_sector1'' = Some VNone"
  "map_of (set_multi r ''obstacle_sector'' [] 6) ''obstacle_sector2'' = Some VNone"
  "map_of (set_multi r ''obstacle_sector'' [] 6) ''obstacle_sector3'' = Some VNone"
  "map_of (set_multi r ''obstacle_sector'' [] 6) ''obstacle_sector4'' = Some VNone"
  "map_of (set_multi r ''obstacle_sector'' [] 6) ''obstacle_sector5'' = Some VNone"
  "map_of (set_multi r ''obstacle_sector'' [] 6) ''obstacle_sector6'' = Some VNone"
  unfolding set_multi_def upt_1_7
  by (simp_all add: map_of_dict_set digits_1_6 del: str_of_nat.simps)

lemma sna_field_sector_empty:
  "i < length pp \<Longrightarrow> pp ! i = [] \<Longrightarrow>
   sna_field pp r (i, ''obstacle_sector'') = set_multi r ''obstacle_sector'' [] 6"
  by (simp add: sna_field_def multi_value_fields_data_def)

lemma sna_record_sector:
  assumes "7 < length pp" "pp ! 7 = []"
  shows "map_of (foldl (sna_field pp) r0 (enumerate 0 field_names)) ''obstacle_sector1'' = Some VNone"
    "map_of (foldl (sna_field pp) r0 (enumerate 0 field_names)) ''obstacle_sector2'' = Some VNone"
    "map_of (foldl (sna_field pp) r0 (enumerate 0 field_names)) ''obstacle_sector3'' = Some VNone"
    "map_of (foldl (sna_field pp) r0 (enumerate 0 field_names)) ''obstacle_sector4'' = Some VNone"
    "map_of (foldl (sna_field pp) r0 (enumerate 0 field_names)) ''obstacle_sector5'' = Some VNone"
    "map_of (foldl (sna_field pp) r0 (enumerate 0 field_names)) ''obstacle_sector6'' = Some VNone"
proof -
  have e: "Suc (Suc (Suc (Suc (Suc (Suc (Suc 0)))))) = 7" by simp
  have a: "Suc (Suc (Suc (Suc (Suc (Suc (Suc 0)))))) < length pp"
    "pp ! Suc (Suc (Suc (Suc (Suc (Suc (Suc 0)))))) = []"
    using assms by (simp_all only: e)
  show "map_of (foldl (sna_field pp) r0 (enumerate 0 field_names)) ''obstacle_sector1'' = Some VNone"
    "map_of (foldl (sna_field pp) r0 (enumerate 0 field_names)) ''obstacle_sector2'' = Some VNone"
    "map_of (foldl (sna_field pp) r0 (enumerate 0 field_names)) ''obstacle_sector3'' = Some VNone"
    "map_of (foldl (sna_field pp) r0 (enumerate 0 field_names)) ''obstacle_sector4'' = Some VNone"
    "map_of (foldl (sna_field pp) r0 (enumerate 0 field_names)) ''obstacle_sector5'' = Some VNone"
    "map_of (foldl (sna_field pp) r0 (enumerate 0 field_names)) ''obstacle_sector6'' = Some VNone"
    by (simp_all add: field_names_def sna_field_other sna_field_sector_empty[OF a] sector_nulls
        del: str_of_nat.simps)
qed

lemma dispatch_sna_logging:
  assumes "startswith lc ''SnALogging,''"
    and "\<not> (contains lc ''MAX_SPEED_ESTI'' \<and> contains lc ''Calculated max speed'')"
    and "\<not> contains lc ''MAVLINK ACTIVE_MAVLINK_PORT is :''"
  shows "dispatch ts lc added ld = emit ld SnA_LOGGING (decode_sna_logging ts lc)"
proof -
  from assms(1) obtain r where "lc = ''SnALogging,'' @ r" by (auto simp: startswith_iff)
  then show ?thesis using assms(2,3) by (auto simp add: dispatch_def)
qed

lemma handle_content_sna_logging:
  assumes "startswith lc ''SnALogging,''"
    and "\<not> (contains lc ''MAX_SPEED_ESTI'' \<and> contains lc ''Calculated max speed'')"
    and "\<not> contains lc ''MAVLINK ACTIVE_MAVLINK_PORT is :''"
  shows "handle_content ts sev lc ld =
           snd (emit (if severity_is_error sev then append_to_error_log ld ts lc else ld)
                  SnA_LOGGING (decode_sna_logging ts lc))"
  by (simp add: handle_content_def Let_def dispatch_sna_logging[OF assms])

lemma decode_sna_logging_short:
  "length (pipe_parts_of lc) < 10 \<Longrightarrow> decode_sna_logging ts lc = Inr None"
  by (simp add: decode_sna_logging_def Let_def)

text \<open>
  Claim C6, as the code has it. Take a decodable line whose payload starts with
  \<^verbatim>\<open>SnALogging,\<close> and that no earlier rule of the dispatcher takes (the two containment
  rules for the maximum speed estimate and the active port stand before this
  decoder). When the payload has fewer than ten fields between pipes, the line adds
  no record to any category other than \<^verbatim>\<open>ERROR\<close>; the \<^verbatim>\<open>ERROR\<close> stream gains the one
  entry of the line when its severity is \<^verbatim>\<open>WARNING\<close> or \<^verbatim>\<open>CRITICAL\<close> and is left as it
  was otherwise. When the payload is no header line, has ten fields or more (the
  expected forty-one among them) and its eighth field, \<^verbatim>\<open>obstacle_sector\<close>, is empty,
  the line adds one \<^verbatim>\<open>SnA_LOGGING\<close> record, in which the six columns
  \<^verbatim>\<open>obstacle_sector1\<close> to \<^verbatim>\<open>obstacle_sector6\<close> are present and null.
\<close>

theorem sna_logging_short_or_empty_sector:
  assumes "segment_line now offset line = Inr (Some (ts, sev, lc))"
    and "startswith lc ''SnALogging,''"
    and "\<not> (contains lc ''MAX_SPEED_ESTI'' \<and> contains lc ''Calculated max speed'')"
    and "\<not> contains lc ''MAVLINK ACTIVE_MAVLINK_PORT is :''"
  shows "(length (pipe_parts_of lc) < 10 \<longrightarrow>
            (\<exists>ld'. process_line now offset ld line = Inr ld'
               \<and> (\<forall>c. c \<noteq> ERROR \<longrightarrow> ld' c = ld c)
               \<and> ld' ERROR =
                    (if sev = Some WARNING \<or> sev = Some CRITICAL
                     then (if ld ERROR = [] then [error_header, error_separator] else ld ERROR)
                            @ [error_entry ts lc]
                     else ld ERROR)))
         \<and> (10 \<le> length (pipe_parts_of lc) \<and> \<not> contains lc ''flight_mode |''
              \<and> pipe_parts_of lc ! 7 = [] \<longrightarrow>
            (\<exists>ld' r. process_line now offset ld line = Inr ld'
               \<and> ld' SnA_LOGGING = ld SnA_LOGGING @ [r]
               \<and> map_of r ''obstacle_sector1'' = Some VNone
               \<and> map_of r ''obstacle_sector2'' = Some VNone
               \<and> map_of r ''obstacle_sector3'' = Some VNone
               \<and> map_of r ''obstacle_sector4'' = Some VNone
               \<and> map_of r ''obstacle_sector5'' = Some VNone
               \<and> map_of r ''obstacle_sector6'' = Some VNone))"
proof (intro conjI impI)
  have p: "process_line now offset ld line = Inr (handle_content ts sev lc ld)"
    using assms(1) by (simp add: process_line_def)
  note h = handle_content_sna_logging[OF assms(2,3,4), of ts sev ld]
  {
    assume short: "length (pipe_parts_of lc) < 10"
    show "\<exists>ld'. process_line now offset ld line = Inr ld'
               \<and> (\<forall>c. c \<noteq> ERROR \<longrightarrow> ld' c = ld c)
               \<and> ld' ERROR =
                    (if sev = Some WARNING \<or> sev = Some CRITICAL
                     then (if ld ERROR = [] then [error_header, error_separator] else ld ERROR)
                            @ [error_entry ts lc]
                     else ld ERROR)"
      unfolding p h decode_sna_logging_short[OF short]
      by (simp add: emit_def severity_is_error_def append_to_error_log_ERROR
          append_to_error_log_other)
  }
  {
    assume full: "10 \<le> length (pipe_parts_of lc) \<and> \<not> contains lc ''flight_mode |''
              \<and> pipe_parts_of lc ! 7 = []"
    then have d: "decode_sna_logging ts lc =
        Inr (Some (foldl (sna_field (pipe_parts_of lc)) [(''timestamp'', VTime ts)]
                     (enumerate 0 field_names)))"
      by (simp add: decode_sna_logging_def Let_def)
    from full have a: "7 < length (pipe_parts_of lc)" "pipe_parts_of lc ! 7 = []" by auto
    show "\<exists>ld' r. process_line now offset ld line = Inr ld'
               \<and> ld' SnA_LOGGING = ld SnA_LOGGING @ [r]
               \<and> map_of r ''obstacle_sector1'' = Some VNone
               \<and> map_of r ''obstacle_sector2'' = Some VNone
               \<and> map_of r ''obstacle_sector3'' = Some VNone
               \<and> map_of r ''obstacle_sector4'' = Some VNone
               \<and> map_of r ''obstacle_sector5'' = Some VNone
               \<and> map_of r ''obstacle_sector6'' = Some VNone"
      unfolding p h d
      using sna_record_sector[OF a, of "[(''timestamp'', VTime ts)]"]
      by (simp add: emit_def append_record_def append_to_error_log_other)
  }
qed


theorem sna_logging_short_or_empty_sector_witness:
  "(\<exists>ld'. process_line 0 0 empty_log_data ''2024-01-01 10:00:00.000,d,INFO,SnALogging,AUTO|1|2'' = Inr ld'
        \<and> (\<forall>c. ld' c = []))
   \<and> (\<exists>ld' r. process_line 0 0 empty_log_data
          ''2024-01-01 10:00:00.000,d,INFO,SnALogging,AUTO|1|2|5.5|6.5|0.5|1.5||0.1|0.2|0.3|12|7|3|40|41|15|2|30|9|25|11|180|13|4|15|6|True|False|True|False|5|True|1|2|3|17|8|19|10|4'' = Inr ld'
        \<and> ld' SnA_LOGGING = [r]
        \<and> map_of r ''obstacle_sector1'' = Some VNone
        \<and> map_of r ''obstacle_sector2'' = Some VNone
        \<and> map_of r ''obstacle_sector3'' = Some VNone
        \<and> map_of r ''obstacle_sector4'' = Some VNone
        \<and> map_of r ''obstacle_sector5'' = Some VNone
        \<and> map_of r ''obstacle_sector6'' = Some VNone)"
proof -
  have s1: "strip ''2024-01-01 10:00:00.000,d,INFO,SnALogging,AUTO|1|2'' = ''2024-01-01 10:00:00.000'' @ '',d,INFO,SnALogging,AUTO|1|2''"
    by (simp add: strip_no_outer_space is_space_def)
  have f1: "find_severity (split_on (CHR '','') (strip '',d,INFO,SnALogging,AUTO|1|2''))
              = Some (Some INFO, ''SnALogging,AUTO|1|2'')"
    by (simp add: strip_defs has_level_def level_of_def)
  have seg1: "segment_line 0 0 ''2024-01-01 10:00:00.000,d,INFO,SnALogging,AUTO|1|2''
                = Inr (Some (63839700000000000, Some INFO, ''SnALogging,AUTO|1|2''))"
    by (simp add: segment_2024[OF s1] f1)
  have r1: "startswith ''SnALogging,AUTO|1|2'' ''SnALogging,''"
    "\<not> (contains ''SnALogging,AUTO|1|2'' ''MAX_SPEED_ESTI''
        \<and> contains ''SnALogging,AUTO|1|2'' ''Calculated max speed'')"
    "\<not> contains ''SnALogging,AUTO|1|2'' ''MAVLINK ACTIVE_MAVLINK_PORT is :''"
    by simp_all
  have p1: "pipe_parts_of ''SnALogging,AUTO|1|2'' = [''AUTO'', ''1'', ''2'']"
    by (simp add: pipe_parts_of_def strip_defs)
  have s2: "strip ''2024-01-01 10:00:00.000,d,INFO,SnALogging,AUTO|1|2|5.5|6.5|0.5|1.5||0.1|0.2|0.3|12|7|3|40|41|15|2|30|9|25|11|180|13|4|15|6|True|False|True|False|5|True|1|2|3|17|8|19|10|4''
              = ''2024-01-01 10:00:00.000'' @ '',d,INFO,SnALogging,AUTO|1|2|5.5|6.5|0.5|1.5||0.1|0.2|0.3|12|7|3|40|41|15|2|30|9|25|11|180|13|4|15|6|True|False|True|False|5|True|1|2|3|17|8|19|10|4''"
    by (simp add: strip_no_outer_space is_space_def)
  have f2: "find_severity (split_on (CHR '','') (strip '',d,INFO,SnALogging,AUTO|1|2|5.5|6.5|0.5|1.5||0.1|0.2|0.3|12|7|3|40|41|15|2|30|9|25|11|180|13|4|15|6|True|False|True|False|5|True|1|2|3|17|8|19|10|4''))
              = Some (Some INFO, ''SnALogging,AUTO|1|2|5.5|6.5|0.5|1.5||0.1|0.2|0.3|12|7|3|40|41|15|2|30|9|25|11|180|13|4|15|6|True|False|True|False|5|True|1|2|3|17|8|19|10|4'')"
    by (simp add: strip_defs has_level_def level_of_def)
  have seg2: "segment_line 0 0 ''2024-01-01 10:00:00.000,d,INFO,SnALogging,AUTO|1|2|5.5|6.5|0.5|1.5||0.1|0.2|0.3|12|7|3|40|41|15|2|30|9|25|11|180|13|4|15|6|True|False|True|False|5|True|1|2|3|17|8|19|10|4''
                = Inr (Some (63839700000000000, Some INFO, ''SnALogging,AUTO|1|2|5.5|6.5|0.5|1.5||0.1|0.2|0.3|12|7|3|40|41|15|2|30|9|25|11|180|13|4|15|6|True|False|True|False|5|True|1|2|3|17|8|19|10|4''))"
    by (simp add: segment_2024[OF s2] f2)
  have r2: "startswith ''SnALogging,AUTO|1|2|5.5|6.5|0.5|1.5||0.1|0.2|0.3|12|7|3|40|41|15|2|30|9|25|11|180|13|4|15|6|True|False|True|False|5|True|1|2|3|17|8|19|10|4'' ''SnALogging,''"
    "\<not> (contains ''SnALogging,AUTO|1|2|5.5|6.5|0.5|1.5||0.1|0.2|0.3|12|7|3|40|41|15|2|30|9|25|11|180|13|4|15|6|True|False|True|False|5|True|1|2|3|17|8|19|10|4'' ''MAX_SPEED_ESTI''
        \<and> contains ''SnALogging,AUTO|1|2|5.5|6.5|0.5|1.5||0.1|0.2|0.3|12|7|3|40|41|15|2|30|9|25|11|180|13|4|15|6|True|False|True|False|5|True|1|2|3|17|8|19|10|4'' ''Calculated max speed'')"
    "\<not> contains ''SnALogging,AUTO|1|2|5.5|6.5|0.5|1.5||0.1|0.2|0.3|12|7|3|40|41|15|2|30|9|25|11|180|13|4|15|6|True|False|True|False|5|True|1|2|3|17|8|19|10|4'' ''MAVLINK ACTIVE_MAVLINK_PORT is :''"
    "\<not> contains ''SnALogging,AUTO|1|2|5.5|6.5|0.5|1.5||0.1|0.2|0.3|12|7|3|40|41|15|2|30|9|25|11|180|13|4|15|6|True|False|True|False|5|True|1|2|3|17|8|19|10|4'' ''flight_mode |''"
    by simp_all
  have p2: "pipe_parts_of ''SnALogging,AUTO|1|2|5.5|6.5|0.5|1.5||0.1|0.2|0.3|12|7|3|40|41|15|2|30|9|25|11|180|13|4|15|6|True|False|True|False|5|True|1|2|3|17|8|19|10|4''
              = [''AUTO'', ''1'', ''2'', ''5.5'', ''6.5'', ''0.5'', ''1.5'', '''', ''0.1'', ''0.2'', ''0.3'', ''12'', ''7'', ''3'', ''40'', ''41'', ''15'', ''2'', ''30'', ''9'', ''25'', ''11'', ''180'', ''13'', ''4'', ''15'', ''6'', ''True'', ''False'', ''True'', ''False'', ''5'', ''True'', ''1'', ''2'', ''3'', ''17'', ''8'', ''19'', ''10'', ''4'']"
    by (simp add: pipe_parts_of_def strip_defs)
  from sna_logging_short_or_empty_sector[OF seg1 r1, of empty_log_data]
  obtain ld1 where l1: "process_line 0 0 empty_log_data ''2024-01-01 10:00:00.000,d,INFO,SnALogging,AUTO|1|2'' = Inr ld1"
    "\<forall>c. c \<noteq> ERROR \<longrightarrow> ld1 c = []" "ld1 ERROR = []"
    by (auto simp add: p1 empty_log_data_def)
  then have "\<forall>c. ld1 c = []" by metis
  with l1(1) have A: "\<exists>ld'. process_line 0 0 empty_log_data ''2024-01-01 10:00:00.000,d,INFO,SnALogging,AUTO|1|2'' = Inr ld'
        \<and> (\<forall>c. ld' c = [])" by blast
  from sna_logging_short_or_empty_sector[OF seg2 r2(1,2,3), of empty_log_data]
  show ?thesis
    using r2(4) A by (simp add: p2 empty_log_data_def)
qed

text \<open>
  A short \<^verbatim>\<open>SnALogging\<close> line of severity \<^verbatim>\<open>WARNING\<close> is not dropped from every
  category: the \<^verbatim>\<open>ERROR\<close> stream receives the header rows and the entry of the line.
\<close>

theorem sna_logging_warning_counterexample:
  "length (pipe_parts_of ''SnALogging,a|b'') < 10
   \<and> (\<exists>ld'. process_line 0 0 empty_log_data ''2024-01-01 10:00:00.000,d,WARNING,SnALogging,a|b'' = Inr ld'
         \<and> ld' ERROR = [error_header, error_separator,
                         error_entry 63839700000000000 ''SnALogging,a|b''])"
proof -
  have s1: "strip ''2024-01-01 10:00:00.000,d,WARNING,SnALogging,a|b'' = ''2024-01-01 10:00:00.000'' @ '',d,WARNING,SnALogging,a|b''"
    by (simp add: strip_no_outer_space is_space_def)
  have f1: "find_severity (split_on (CHR '','') (strip '',d,WARNING,SnALogging,a|b''))
              = Some (Some WARNING, ''SnALogging,a|b'')"
    by (simp add: strip_defs has_level_def level_of_def)
  have seg1: "segment_line 0 0 ''2024-01-01 10:00:00.000,d,WARNING,SnALogging,a|b''
                = Inr (Some (63839700000000000, Some WARNING, ''SnALogging,a|b''))"
    by (simp add: segment_2024[OF s1] f1)
  have r1: "startswith ''SnALogging,a|b'' ''SnALogging,''"
    "\<not> (contains ''SnALogging,a|b'' ''MAX_SPEED_ESTI''
        \<and> contains ''SnALogging,a|b'' ''Calculated max speed'')"
    "\<not> contains ''SnALogging,a|b'' ''MAVLINK ACTIVE_MAVLINK_PORT is :''"
    by simp_all
  have p1: "pipe_parts_of ''SnALogging,a|b'' = [''a'', ''b'']"
    by (simp add: pipe_parts_of_def strip_defs)
  have short: "length (pipe_parts_of ''SnALogging,a|b'') < 10" by (simp add: p1)
  have "process_line 0 0 empty_log_data ''2024-01-01 10:00:00.000,d,WARNING,SnALogging,a|b''
          = Inr (append_to_error_log empty_log_data 63839700000000000 ''SnALogging,a|b'')"
    by (simp add: process_line_def seg1 handle_content_sna_logging[OF r1]
        decode_sna_logging_short[OF short] emit_def severity_is_error_def)
  then show ?thesis
    using short by (simp add: append_to_error_log_ERROR empty_log_data_def)
qed

section \<open>Lines that are not decodable\<close>

lemma match_pat_length: "match_pat p s \<Longrightarrow> length s = length p"
  by (induction p s rule: match_pat.induct) auto


lemma segment_line_unmatched:
  "timestamp_match (strip line) = None \<Longrightarrow> segment_line now offset line = Inr None"
  by (simp add: segment_line_def Let_def)




lemma dispatch_FOO: "dispatch ts ''FOO'' added ld = branch_other ts ''FOO'' added ld"
  by (simp add: dispatch_def)

lemma handle_content_FOO:
  "handle_content ts (Some INFO) ''FOO'' ld
     = append_record ld OTHER [(''timestamp'', VTime ts), (''log_content'', VStr ''FOO'')]"
  by (simp add: handle_content_def severity_is_error_def dispatch_FOO branch_other_def
      is_error_message_def lower_def lower_char_def)


section \<open>The timestamp normalizer and the clock\<close>

lemma strptime_s_fails:
  "match_pat ''dddd-dd-dd dd:dd:dd.ddd'' ts \<Longrightarrow> strptime_s ts = None"
  using match_pat_length[of "''dddd-dd-dd dd:dd:dd.ddd''" ts]
    match_pat_length[of "''dddd-dd-dd dd:dd:dd''" ts]
  by (auto simp: strptime_s_def)

lemma parse_timestamp_parsed:
  "strptime_ms ts \<noteq> None \<Longrightarrow> parse_timestamp now ts offset = parse_timestamp now' ts offset"
  by (auto simp: parse_timestamp_def)

lemma segment_line_clock:
  assumes "\<forall>g. timestamp_match (strip line) = Some g \<longrightarrow> strptime_ms g \<noteq> None"
  shows "segment_line now offset line = segment_line now' offset line"
proof (cases "timestamp_match (strip line)")
  case None
  then show ?thesis by (simp add: segment_line_unmatched)
next
  case (Some g)
  then have "parse_timestamp now g offset = parse_timestamp now' g offset"
    using assms by (intro parse_timestamp_parsed) auto
  then show ?thesis using Some by (simp add: segment_line_def Let_def)
qed

lemma scan_lines_clock:
  assumes "\<forall>line\<in>set lines. \<forall>g. timestamp_match (strip line) = Some g \<longrightarrow> strptime_ms g \<noteq> None"
  shows "scan_lines clock1 offset n ld lines = scan_lines clock2 offset n ld lines"
  using assms
proof (induction lines arbitrary: n ld)
  case Nil
  then show ?case by simp
next
  case (Cons line lines)
  have "process_line (clock1 n) offset ld line = process_line (clock2 n) offset ld line"
    using Cons.prems segment_line_clock[of line "clock1 n" offset "clock2 n"]
    by (simp add: process_line_def)
  then show ?case using Cons by (simp split: sum.splits)
qed

text \<open>
  Claim C1, as the code has it. For a text that matches the timestamp pattern and
  fails the parse at millisecond precision (the parse at second precision then fails
  too, the fraction being left over), \<^verbatim>\<open>parse_timestamp\<close> takes the current wall-clock
  time in place of the parsed one and adds the offset to it. The result of the scan is
  a function of the lines and the offset alone, the same for any two clocks, when
  every line whose stripped text starts with a timestamp of the pattern holds one that
  the calendar admits.
\<close>

theorem clock_read_only_on_failed_parse:
  "(match_pat ''dddd-dd-dd dd:dd:dd.ddd'' ts \<and> strptime_ms ts = None \<longrightarrow>
      parse_timestamp now ts offset = add_timedelta now offset)
   \<and> ((\<forall>line\<in>set lines. \<forall>g. timestamp_match (strip line) = Some g \<longrightarrow> strptime_ms g \<noteq> None) \<longrightarrow>
        parse_log_file clock1 offset lines = parse_log_file clock2 offset lines)"
  using scan_lines_clock[of lines clock1 offset 1 empty_log_data clock2]
  by (auto simp: parse_timestamp_def strptime_s_fails parse_log_file_def)

lemma strptime_ms_feb30: "strptime_ms ''2024-02-30 10:00:00.000'' = None"
  by (simp add: strptime_ms_def is_digit_def digit_val_def num_at_def nat_of_digits_def
      make_datetime_def days_in_month_def is_leap_def)

lemma timestamp_match_feb30:
  "timestamp_match (''2024-02-30 10:00:00.000'' @ rest) = Some ''2024-02-30 10:00:00.000''"
  by (simp add: timestamp_match_def is_digit_def digit_val_def)

lemma parse_log_file_feb30:
  assumes "0 \<le> t" "t < max_datetime"
  shows "parse_log_file (\<lambda>n. t) 0 [''2024-02-30 10:00:00.000,d,INFO,FOO'']
           = Inr (append_record empty_log_data OTHER
                    [(''timestamp'', VTime t), (''log_content'', VStr ''FOO'')])"
proof -
  have s: "strip ''2024-02-30 10:00:00.000,d,INFO,FOO'' = ''2024-02-30 10:00:00.000'' @ '',d,INFO,FOO''"
    by (simp add: strip_no_outer_space is_space_def)
  have m: "match_pat ''dddd-dd-dd dd:dd:dd.ddd'' ''2024-02-30 10:00:00.000''"
    by (simp add: is_digit_def digit_val_def)
  have p: "parse_timestamp t ''2024-02-30 10:00:00.000'' 0 = Inr t"
    using assms by (simp add: parse_timestamp_def strptime_ms_feb30 strptime_s_fails[OF m] add_timedelta_def)
  have f: "find_severity (split_on (CHR '','') (strip '',d,INFO,FOO'')) = Some (Some INFO, ''FOO'')"
    by (simp add: strip_defs has_level_def level_of_def)
  have "segment_line t 0 ''2024-02-30 10:00:00.000,d,INFO,FOO'' = Inr (Some (t, Some INFO, ''FOO''))"
    unfolding segment_line_def Let_def s timestamp_match_feb30
    by (simp add: p f)
  then show ?thesis
    by (simp add: parse_log_file_def process_line_def handle_content_FOO)
qed

theorem clock_read_only_on_failed_parse_witness:
  "parse_timestamp 63900000001000000 ''2024-02-30 10:00:00.000'' 0 = Inr 63900000001000000
   \<and> parse_log_file (\<lambda>n. 63900000000000000) 0 [''2024-01-01 10:00:00.000,d,INFO,FOO'']
       = parse_log_file (\<lambda>n. 63900000001000000) 0 [''2024-01-01 10:00:00.000,d,INFO,FOO'']"
proof -
  have m: "match_pat ''dddd-dd-dd dd:dd:dd.ddd'' ''2024-02-30 10:00:00.000''"
    by (simp add: is_digit_def digit_val_def)
  have s: "strip ''2024-01-01 10:00:00.000,d,INFO,FOO'' = ''2024-01-01 10:00:00.000'' @ '',d,INFO,FOO''"
    by (simp add: strip_no_outer_space is_space_def)
  have v: "\<forall>line\<in>set [''2024-01-01 10:00:00.000,d,INFO,FOO''].
             \<forall>g. timestamp_match (strip line) = Some g \<longrightarrow> strptime_ms g \<noteq> None"
    using timestamp_match_2024[of "'',d,INFO,FOO''"] by (simp add: s strptime_ms_2024)
  from clock_read_only_on_failed_parse[of "''2024-02-30 10:00:00.000''" 63900000001000000 0
      "[''2024-01-01 10:00:00.000,d,INFO,FOO'']" "\<lambda>n. 63900000000000000" "\<lambda>n. 63900000001000000"]
  show ?thesis
    using m v strptime_ms_feb30 by (simp add: add_timedelta_def max_datetime_def)
qed

text \<open>
  The scan of a line dated 30 February at two different wall-clock times gives two
  different stores: the record carries the clock's reading as its timestamp.
\<close>

theorem wall_clock_substituted_counterexample:
  "parse_log_file (\<lambda>n. 63900000000000000) 0 [''2024-02-30 10:00:00.000,d,INFO,FOO'']
     \<noteq> parse_log_file (\<lambda>n. 63900000001000000) 0 [''2024-02-30 10:00:00.000,d,INFO,FOO'']"
proof
  assume "parse_log_file (\<lambda>n. 63900000000000000) 0 [''2024-02-30 10:00:00.000,d,INFO,FOO'']
     = parse_log_file (\<lambda>n. 63900000001000000) 0 [''2024-02-30 10:00:00.000,d,INFO,FOO'']"
  then have "append_record empty_log_data OTHER
                    [(''timestamp'', VTime 63900000000000000), (''log_content'', VStr ''FOO'')]
             = append_record empty_log_data OTHER
                    [(''timestamp'', VTime 63900000001000000), (''log_content'', VStr ''FOO'')]"
    by (simp add: parse_log_file_feb30 max_datetime_def)
  then have "append_record empty_log_data OTHER
                    [(''timestamp'', VTime 63900000000000000), (''log_content'', VStr ''FOO'')] OTHER
             = append_record empty_log_data OTHER
                    [(''timestamp'', VTime 63900000001000000), (''log_content'', VStr ''FOO'')] OTHER"
    by simp
  then show False by (simp add: append_record_def)
qed

end
